theory Spec2Isabelle
  imports Main "HOL-Library.Word"
begin

unbundle bit_operations_syntax

section \<open>Data model of the sticker archive plugin (src/index.ts)\<close>

text \<open>
  A Node \<open>Buffer\<close> is a list of octets. A JavaScript string that comes from a chat
  reply is a list of UTF-16 code units; file names, MIME types and identifiers, which
  the plugin only concatenates and compares, are ordinary strings.
\<close>

type_synonym byte = "8 word"
type_synonym buffer = "byte list"
type_synonym jstring = "16 word list"

datatype send_mode = Buffer | File

text \<open>The interface \<open>Config\<close> (lines 36-55). \<open>albumMaxSize\<close> is taken to be a whole number.\<close>

record Config =
  enableAlbum :: bool
  albumEnabledGroups :: "string list"
  albumMaxSize :: int
  albumShowImages :: bool
  deletePermissionLevel :: int
  staticImageMode :: send_mode
  gifMode :: send_mode
  fileTransferMode :: send_mode
  debug :: bool

text \<open>
  The interface \<open>StickerRecord\<close> (lines 99-112). The fields \<open>id\<close>, \<open>channelId\<close> and
  \<open>size\<close> carry the prefix \<open>rec_\<close>; \<open>createdAt\<close> is a time stamp in milliseconds.
\<close>

record StickerRecord =
  rec_id :: nat
  rec_channelId :: string
  md5 :: string
  ext :: string
  mime :: string
  rec_size :: nat
  isGif :: bool
  fileName :: string
  filePath :: string
  uploaderId :: string
  sourceMessageId :: string
  createdAt :: nat

text \<open>What the plugin reads of a Koishi \<open>Session\<close>, of its author and of the quoted message.\<close>

record Author =
  roles :: "string list option"

record Element =
  etype :: string
  attr_src :: "string option"
  attr_url :: "string option"

record Quote =
  messageId :: "string option"
  elements :: "Element list"

record Session =
  platform :: string
  channelId :: string
  userId :: string
  isDirect :: bool
  author :: "Author option"
  quote :: "Quote option"

section \<open>Fingerprinting: \<open>downloadImage\<close> (lines 145-164) and \<open>getExtFromMime\<close> (lines 169-177)\<close>

text \<open>
  \<open>buffer.toString('hex', 0, 4)\<close> writes each octet as two lower-case hexadecimal
  digits. \<open>buffer.toString('ascii', 0, 4)\<close> clears the highest bit of each octet before
  it decodes it, as Node documents for the \<open>'ascii'\<close> encoding.
\<close>

definition hex_digit :: "nat \<Rightarrow> char" where
  "hex_digit n = ''0123456789abcdef'' ! n"

definition hex_byte :: "byte \<Rightarrow> string" where
  "hex_byte b = [hex_digit (unat b div 16), hex_digit (unat b mod 16)]"

definition toString_hex :: "buffer \<Rightarrow> nat \<Rightarrow> nat \<Rightarrow> string" where
  "toString_hex b s e = concat (map hex_byte (take (e - s) (drop s b)))"

definition toString_ascii :: "buffer \<Rightarrow> nat \<Rightarrow> nat \<Rightarrow> string" where
  "toString_ascii b s e = map (\<lambda>x. char_of (unat (x AND 0x7F))) (take (e - s) (drop s b))"

definition startsWith :: "string \<Rightarrow> string \<Rightarrow> bool" where
  "startsWith s p = (take (length p) s = p)"

definition detectMime :: "buffer \<Rightarrow> string" where
  "detectMime b =
     (if 4 \<le> length b then
        (let header = toString_hex b 0 4 in
         if startsWith header ''89504e47'' then ''image/png''
         else if startsWith header ''ffd8ff'' then ''image/jpeg''
         else if startsWith header ''47494638'' then ''image/gif''
         else if toString_ascii b 0 4 = ''RIFF'' then ''image/webp''
         else ''image/unknown'')
      else ''image/unknown'')"

datatype error =
    DownloadError string
  | WriteError string
  | SendError string
  | UnlinkError string
  | ReadError string
  | NoFilePath

text \<open>
  \<open>downloadImage\<close> receives the outcome of \<open>ctx.http.get\<close>: the body, or the message of
  the exception, which it wraps and throws again.
\<close>

definition downloadImage :: "string + buffer \<Rightarrow> error + (buffer \<times> string \<times> nat)" where
  "downloadImage response =
     (case response of
        Inl msg \<Rightarrow> Inl (DownloadError msg)
      | Inr b \<Rightarrow> Inr (b, detectMime b, length b))"

definition getExtFromMime :: "string \<Rightarrow> string" where
  "getExtFromMime m =
     (case map_of [(''image/png'', ''png''), (''image/jpeg'', ''jpg''),
                   (''image/gif'', ''gif''), (''image/webp'', ''webp'')] m of
        Some e \<Rightarrow> (if e = [] then ''jpg'' else e)
      | None \<Rightarrow> ''jpg'')"

section \<open>Permission gate: \<open>checkUserPermission\<close> and \<open>hasDeletePermission\<close> (lines 272-294)\<close>

definition checkUserPermission :: "Session \<Rightarrow> int" where
  "checkUserPermission s =
     (if isDirect s then 1
      else
        (case author s of
           None \<Rightarrow> 1
         | Some a \<Rightarrow>
             (let rs = (case roles a of None \<Rightarrow> [] | Some l \<Rightarrow> l) in
              if ''owner'' \<in> set rs then 4
              else if ''admin'' \<in> set rs then 3
              else if ''trusted'' \<in> set rs then 2
              else 1)))"

definition hasDeletePermission :: "Config \<Rightarrow> Session \<Rightarrow> bool" where
  "hasDeletePermission cfg s = (deletePermissionLevel cfg \<le> checkUserPermission s)"

section \<open>The world the plugin acts on\<close>

text \<open>
  The Koishi row store, the blob directory and the chat transport are collaborators
  outside the repository. The table \<open>sticker_archive\<close> is the list of its rows in
  insertion order together with the next value of the auto-increment key; the directory
  is a map from paths to contents; \<open>sent\<close> is the log of the payloads that
  \<open>session.send\<close> delivered; \<open>timers\<close> holds the paths whose deletion
  \<open>sendFileWithName\<close> scheduled with \<open>setTimeout\<close> and that have not fired.
\<close>

datatype payload =
    FileMsg string string
  | ImageMsg buffer string
  | ConfirmPrompt

record world =
  rows :: "StickerRecord list"
  nextId :: nat
  files :: "string \<rightharpoonup> buffer"
  sent :: "payload list"
  timers :: "string list"

text \<open>
  What the surroundings decide: the storage directory, the digest and calendar
  functions of the runtime, and which calls throw (with the message of the exception).
  The row store itself is taken to be reliable.
\<close>

record env =
  storageDir :: string
  md5_hex :: "buffer \<Rightarrow> string"
  iso_date :: "nat \<Rightarrow> string"
  send_throws :: "payload \<Rightarrow> string option"
  write_throws :: "string \<Rightarrow> string option"
  unlink_throws :: "string \<Rightarrow> string option"
  read_throws :: "string \<Rightarrow> string option"

text \<open>
  What one pass through the conversion loop reads from outside: the outcome of the HTTP
  request and the clock at \<open>saveFile\<close>, at \<open>Date.now()\<close> in \<open>sendFileWithName\<close> and at
  \<open>createdAt: new Date()\<close>.
\<close>

record item_io =
  response :: "string + buffer"
  t_save :: nat
  t_temp :: nat
  t_create :: nat

subsection \<open>Row store queries\<close>

definition select_channel :: "StickerRecord list \<Rightarrow> string \<Rightarrow> StickerRecord list" where
  "select_channel rs ch = filter (\<lambda>r. rec_channelId r = ch) rs"

text \<open>\<open>orderBy('createdAt', 'desc')\<close>: newest first; rows of equal time keep table order.\<close>

definition orderBy_createdAt_desc :: "StickerRecord list \<Rightarrow> StickerRecord list" where
  "orderBy_createdAt_desc rs = sort_key (\<lambda>r. - int (createdAt r)) rs"

definition channel_newest_first :: "world \<Rightarrow> string \<Rightarrow> StickerRecord list" where
  "channel_newest_first w ch = orderBy_createdAt_desc (select_channel (rows w) ch)"

definition db_get :: "world \<Rightarrow> string \<Rightarrow> string \<Rightarrow> StickerRecord list" where
  "db_get w ch h = filter (\<lambda>r. rec_channelId r = ch \<and> md5 r = h) (rows w)"

definition db_create :: "world \<Rightarrow> StickerRecord \<Rightarrow> world" where
  "db_create w r = w\<lparr>rows := rows w @ [r\<lparr>rec_id := nextId w\<rparr>], nextId := Suc (nextId w)\<rparr>"

definition db_remove_id :: "world \<Rightarrow> nat \<Rightarrow> world" where
  "db_remove_id w i = w\<lparr>rows := filter (\<lambda>r. rec_id r \<noteq> i) (rows w)\<rparr>"

definition db_remove_channel :: "world \<Rightarrow> string \<Rightarrow> world" where
  "db_remove_channel w ch = w\<lparr>rows := filter (\<lambda>r. rec_channelId r \<noteq> ch) (rows w)\<rparr>"

subsection \<open>Paths and the transport\<close>

text \<open>\<open>resolve(storageDir, name)\<close> for a plain file name under an absolute directory.\<close>

definition resolve :: "string \<Rightarrow> string \<Rightarrow> string" where
  "resolve dir nm = dir @ ''/'' @ nm"

definition is_sep :: "char \<Rightarrow> bool" where
  "is_sep c = (c = CHR ''/'' \<or> c = CHR 0x5C)"

text \<open>\<open>path.split(/[/\\]/).pop()\<close>: what follows the last slash or backslash.\<close>

definition last_segment :: "string \<Rightarrow> string" where
  "last_segment p = rev (takeWhile (\<lambda>c. \<not> is_sep c) (rev p))"

fun show_nat :: "nat \<Rightarrow> string" where
  "show_nat n =
     (if n < 10 then [char_of (48 + n)]
      else show_nat (n div 10) @ [char_of (48 + n mod 10)])"

declare show_nat.simps [simp del]

definition session_send :: "env \<Rightarrow> world \<Rightarrow> payload \<Rightarrow> world \<times> (error + unit)" where
  "session_send en w p =
     (case send_throws en p of
        Some msg \<Rightarrow> (w, Inl (SendError msg))
      | None \<Rightarrow> (w\<lparr>sent := sent w @ [p]\<rparr>, Inr ()))"

text \<open>\<open>saveFile\<close> (lines 182-193): the name is the date, the digest and the extension.\<close>

definition saveFile :: "env \<Rightarrow> world \<Rightarrow> buffer \<Rightarrow> string \<Rightarrow> string \<Rightarrow> nat \<Rightarrow> world \<times> (error + string)" where
  "saveFile en w buf h ex t =
     (let fname = iso_date en t @ ''-'' @ h @ ''.'' @ ex;
          fpath = resolve (storageDir en) fname
      in case write_throws en fpath of
           Some msg \<Rightarrow> (w, Inl (WriteError msg))
         | None \<Rightarrow> (w\<lparr>files := (files w)(fpath \<mapsto> buf)\<rparr>, Inr fpath))"

definition isOneBotPlatform :: "Session \<Rightarrow> bool" where
  "isOneBotPlatform s = (platform s = ''onebot'')"

definition isAlbumEnabledForGroup :: "Config \<Rightarrow> string \<Rightarrow> bool" where
  "isAlbumEnabledForGroup cfg ch =
     (if \<not> enableAlbum cfg then False
      else if albumEnabledGroups cfg = [] then True
      else ch \<in> set (albumEnabledGroups cfg))"

section \<open>Capacity governor: \<open>checkAndCleanAlbum\<close> (lines 222-254)\<close>

text \<open>\<open>records.slice(start)\<close> with a relative start, as \<open>Array.prototype.slice\<close> defines it.\<close>

definition js_slice :: "'a list \<Rightarrow> int \<Rightarrow> 'a list" where
  "js_slice xs start =
     (if start < 0 then drop (nat (max (int (length xs) + start) 0)) xs
      else drop (nat start) xs)"

text \<open>
  One pass of the deletion loop: unlink the blob if it exists, then remove the row; an
  exception is caught and logged, and the loop goes on with the next record.
\<close>

definition clean_one :: "env \<Rightarrow> StickerRecord \<Rightarrow> world \<Rightarrow> world" where
  "clean_one en r w =
     (if files w (filePath r) \<noteq> None then
        (case unlink_throws en (filePath r) of
           Some msg \<Rightarrow> w
         | None \<Rightarrow> db_remove_id (w\<lparr>files := (files w)(filePath r := None)\<rparr>) (rec_id r))
      else db_remove_id w (rec_id r))"

definition checkAndCleanAlbum :: "Config \<Rightarrow> env \<Rightarrow> world \<Rightarrow> string \<Rightarrow> world" where
  "checkAndCleanAlbum cfg en w ch =
     (let records = channel_newest_first w ch in
      if albumMaxSize cfg \<le> int (length records) then
        (let toDelete = js_slice records (albumMaxSize cfg - 1) in
         fold (clean_one en) toDelete w)
      else w)"

section \<open>Delivery: \<open>sendFileWithName\<close> (lines 299-339) and the dispatch blocks\<close>

definition sendFileWithName ::
  "Config \<Rightarrow> env \<Rightarrow> world \<Rightarrow> buffer \<Rightarrow> string \<Rightarrow> string option \<Rightarrow> bool \<Rightarrow> nat \<Rightarrow> world \<times> (error + unit)" where
  "sendFileWithName cfg en w buf fname fpath forceBuffer now =
     (if fileTransferMode cfg = Buffer \<or> forceBuffer then
        (let tempFileName = ''temp_'' @ show_nat now @ ''_'' @ fname;
             tempPath = resolve (storageDir en) tempFileName
         in case write_throws en tempPath of
              Some msg \<Rightarrow> (w, Inl (WriteError msg))
            | None \<Rightarrow>
                (case session_send en (w\<lparr>files := (files w)(tempPath \<mapsto> buf)\<rparr>)
                        (FileMsg (''file://'' @ tempPath) fname) of
                   (w1, Inl e) \<Rightarrow> (w1, Inl e)
                 | (w1, Inr u) \<Rightarrow> (w1\<lparr>timers := timers w1 @ [tempPath]\<rparr>, Inr ())))
      else
        (case fpath of
           None \<Rightarrow> (w, Inl NoFilePath)
         | Some p \<Rightarrow>
             if p = [] then (w, Inl NoFilePath)
             else session_send en w (FileMsg (''file://'' @ p) (last_segment p))))"

text \<open>The lines of the summary that \<open>convertEmoji\<close> and \<open>convertEmojiOnly\<close> return.\<close>

datatype line =
    InvalidLink
  | AlreadyExists nat
  | GifAsFile string
  | GifAsImageFallback
  | GifAsImage
  | ImageAsFile string
  | ImageConverted
  | Failed error
  | SuccessHeader nat

text \<open>
  The dispatch block of lines 628-672 and, with no saved path and \<open>forceBuffer\<close>, of lines
  439-489: a file send that throws is followed by an image send of the same buffer.
\<close>

definition deliver ::
  "Config \<Rightarrow> env \<Rightarrow> world \<Rightarrow> buffer \<Rightarrow> string \<Rightarrow> bool \<Rightarrow> string \<Rightarrow> string option \<Rightarrow> bool \<Rightarrow> nat
     \<Rightarrow> world \<times> (error + line)" where
  "deliver cfg en w buf mi gif fname fpath forceBuffer now =
     (if gif then
        (if gifMode cfg = File then
           (case sendFileWithName cfg en w buf fname fpath forceBuffer now of
              (w1, Inr u) \<Rightarrow> (w1, Inr (GifAsFile fname))
            | (w1, Inl e) \<Rightarrow>
                (case session_send en w1 (ImageMsg buf ''image/gif'') of
                   (w2, Inr u) \<Rightarrow> (w2, Inr GifAsImageFallback)
                 | (w2, Inl e2) \<Rightarrow> (w2, Inl e2)))
         else
           (case session_send en w (ImageMsg buf ''image/gif'') of
              (w1, Inr u) \<Rightarrow> (w1, Inr GifAsImage)
            | (w1, Inl e) \<Rightarrow> (w1, Inl e)))
      else
        (if staticImageMode cfg = File then
           (case sendFileWithName cfg en w buf fname fpath forceBuffer now of
              (w1, Inr u) \<Rightarrow> (w1, Inr (ImageAsFile fname))
            | (w1, Inl e) \<Rightarrow>
                (case session_send en w1 (ImageMsg buf mi) of
                   (w2, Inr u) \<Rightarrow> (w2, Inr ImageConverted)
                 | (w2, Inl e2) \<Rightarrow> (w2, Inl e2)))
         else
           (case session_send en w (ImageMsg buf mi) of
              (w1, Inr u) \<Rightarrow> (w1, Inr ImageConverted)
            | (w1, Inl e) \<Rightarrow> (w1, Inl e))))"

section \<open>The commands\<close>

text \<open>What a command returns to the chat.\<close>

datatype reply =
    NotOneBot
  | AlbumDisabledForConvert
  | NoQuote
  | NoImages
  | Lines "line list"
  | AlbumDisabled
  | IndexInvalid nat
  | FileMissing
  | SentGifFile string
  | SentGifAsImage string
  | SentGifImage string
  | SentImageFile string
  | SentImage string
  | SendFailed error
  | PermissionDenied int
  | Deleted string
  | DeleteFailed error
  | AlreadyEmpty
  | Cancelled
  | Cleared nat
  | ClearFailed error

text \<open>
  \<open>h.select(quote.elements, t)\<close> on a flat element list, and the address of an image:
  \<open>attrs.url\<close> for an \<open>mface\<close>, otherwise \<open>attrs.src || attrs.url\<close>.
\<close>

definition h_select :: "Element list \<Rightarrow> string \<Rightarrow> Element list" where
  "h_select els t = filter (\<lambda>el. etype el = t) els"

definition allImageLike :: "Quote \<Rightarrow> Element list" where
  "allImageLike q =
     h_select (elements q) ''img'' @ h_select (elements q) ''image'' @ h_select (elements q) ''mface''"

definition truthy :: "string option \<Rightarrow> bool" where
  "truthy v = (case v of None \<Rightarrow> False | Some u \<Rightarrow> u \<noteq> [])"

definition url_of :: "Element \<Rightarrow> string option" where
  "url_of img =
     (if etype img = ''mface'' then attr_url img
      else if truthy (attr_src img) then attr_src img
      else attr_url img)"

subsection \<open>\<open>convertEmoji\<close> (lines 510-704)\<close>

text \<open>
  The body of the loop over the images (lines 572-696). It returns the world, the lines
  pushed to \<open>results\<close> and whether \<open>successCount\<close> was incremented.
\<close>

definition convertEmoji_item ::
  "Config \<Rightarrow> env \<Rightarrow> Session \<Rightarrow> Quote \<Rightarrow> world \<Rightarrow> Element \<Rightarrow> item_io \<Rightarrow> world \<times> line list \<times> bool" where
  "convertEmoji_item cfg en s q w img io =
     (if \<not> truthy (url_of img) then (w, [InvalidLink], False)
      else
        (case downloadImage (response io) of
           Inl e \<Rightarrow> (w, [Failed e], False)
         | Inr (buf, mi, sz) \<Rightarrow>
             (let h = md5_hex en buf;
                  ex = getExtFromMime mi;
                  gif = (mi = ''image/gif'');
                  existing = db_get w (channelId s) h
              in if existing \<noteq> [] then (w, [AlreadyExists (rec_id (hd existing))], False)
                 else
                   (case saveFile en (checkAndCleanAlbum cfg en w (channelId s)) buf h ex (t_save io) of
                      (w2, Inl e) \<Rightarrow> (w2, [Failed e], False)
                    | (w2, Inr fpath) \<Rightarrow>
                        (let fname = last_segment fpath in
                         case deliver cfg en w2 buf mi gif fname (Some fpath) False (t_temp io) of
                           (w3, Inl e) \<Rightarrow> (w3, [Failed e], False)
                         | (w3, Inr ln) \<Rightarrow>
                             (db_create w3
                                \<lparr>rec_id = 0, rec_channelId = channelId s, md5 = h, ext = ex,
                                 mime = mi, rec_size = sz, isGif = gif, fileName = fname,
                                 filePath = fpath, uploaderId = userId s,
                                 sourceMessageId = (case messageId q of None \<Rightarrow> [] | Some m \<Rightarrow> m),
                                 createdAt = t_create io\<rparr>,
                              [ln], True))))))"

fun convertEmoji_loop ::
  "Config \<Rightarrow> env \<Rightarrow> Session \<Rightarrow> Quote \<Rightarrow> world \<Rightarrow> (Element \<times> item_io) list \<Rightarrow> world \<times> line list \<times> nat" where
  "convertEmoji_loop cfg en s q w [] = (w, [], 0)"
| "convertEmoji_loop cfg en s q w ((img, io) # rest) =
     (case convertEmoji_item cfg en s q w img io of
        (w1, ls, ok) \<Rightarrow>
          (case convertEmoji_loop cfg en s q w1 rest of
             (w2, ls2, n) \<Rightarrow> (w2, ls @ ls2, (if ok then 1 else 0) + n)))"

text \<open>The \<open>k\<close>-th image of the batch meets the \<open>k\<close>-th reading \<open>ios k\<close> of the outside.\<close>

definition with_io :: "Element list \<Rightarrow> (nat \<Rightarrow> item_io) \<Rightarrow> (Element \<times> item_io) list" where
  "with_io imgs ios = zip imgs (map ios [0..<length imgs])"

definition summary :: "line list \<Rightarrow> nat \<Rightarrow> reply" where
  "summary ls n = Lines ((if 0 < n then [SuccessHeader n] else []) @ ls)"

definition convertEmoji :: "Config \<Rightarrow> env \<Rightarrow> world \<Rightarrow> Session \<Rightarrow> (nat \<Rightarrow> item_io) \<Rightarrow> world \<times> reply" where
  "convertEmoji cfg en w s ios =
     (if \<not> isOneBotPlatform s then (w, NotOneBot)
      else if \<not> isAlbumEnabledForGroup cfg (channelId s) then (w, AlbumDisabledForConvert)
      else
        (case quote s of
           None \<Rightarrow> (w, NoQuote)
         | Some q \<Rightarrow>
             (let imgs = allImageLike q in
              if imgs = [] then (w, NoImages)
              else
                (case convertEmoji_loop cfg en s q w (with_io imgs ios) of
                   (w1, ls, n) \<Rightarrow> (w1, summary ls n)))))"

subsection \<open>\<open>convertEmojiOnly\<close> (lines 344-505)\<close>

definition convertEmojiOnly_item ::
  "Config \<Rightarrow> env \<Rightarrow> world \<Rightarrow> Element \<Rightarrow> item_io \<Rightarrow> world \<times> line list \<times> bool" where
  "convertEmojiOnly_item cfg en w img io =
     (if \<not> truthy (url_of img) then (w, [InvalidLink], False)
      else
        (case downloadImage (response io) of
           Inl e \<Rightarrow> (w, [Failed e], False)
         | Inr (buf, mi, sz) \<Rightarrow>
             (let h = md5_hex en buf;
                  ex = getExtFromMime mi;
                  gif = (mi = ''image/gif'');
                  fname = ''temp-'' @ take 8 h @ ''.'' @ ex
              in case deliver cfg en w buf mi gif fname None True (t_temp io) of
                   (w1, Inl e) \<Rightarrow> (w1, [Failed e], False)
                 | (w1, Inr ln) \<Rightarrow> (w1, [ln], True))))"

fun convertEmojiOnly_loop ::
  "Config \<Rightarrow> env \<Rightarrow> world \<Rightarrow> (Element \<times> item_io) list \<Rightarrow> world \<times> line list \<times> nat" where
  "convertEmojiOnly_loop cfg en w [] = (w, [], 0)"
| "convertEmojiOnly_loop cfg en w ((img, io) # rest) =
     (case convertEmojiOnly_item cfg en w img io of
        (w1, ls, ok) \<Rightarrow>
          (case convertEmojiOnly_loop cfg en w1 rest of
             (w2, ls2, n) \<Rightarrow> (w2, ls @ ls2, (if ok then 1 else 0) + n)))"

definition convertEmojiOnly :: "Config \<Rightarrow> env \<Rightarrow> world \<Rightarrow> Session \<Rightarrow> (nat \<Rightarrow> item_io) \<Rightarrow> world \<times> reply" where
  "convertEmojiOnly cfg en w s ios =
     (if \<not> isOneBotPlatform s then (w, NotOneBot)
      else
        (case quote s of
           None \<Rightarrow> (w, NoQuote)
         | Some q \<Rightarrow>
             (let imgs = allImageLike q in
              if imgs = [] then (w, NoImages)
              else
                (case convertEmojiOnly_loop cfg en w (with_io imgs ios) of
                   (w1, ls, n) \<Rightarrow> (w1, summary ls n)))))"

subsection \<open>\<open>viewAlbum\<close> (lines 709-768): the page query\<close>


subsection \<open>\<open>sendEmoji\<close> (lines 773-834)\<close>

text \<open>
  Lines 774-795: the gate, the query, the index check, the existence check and
  \<open>readFile\<close>. The result is the reply that ends the command, or the record and
  the bytes read from its path.
\<close>

definition sendEmoji_read ::
  "Config \<Rightarrow> env \<Rightarrow> world \<Rightarrow> Session \<Rightarrow> int \<Rightarrow> reply + (StickerRecord \<times> buffer)" where
  "sendEmoji_read cfg en w s index =
     (if \<not> isAlbumEnabledForGroup cfg (channelId s) then Inl AlbumDisabled
      else
        (let records = channel_newest_first w (channelId s) in
         if index < 1 \<or> int (length records) < index then Inl (IndexInvalid (length records))
         else
           (let r = records ! nat (index - 1) in
            case files w (filePath r) of
              None \<Rightarrow> Inl FileMissing
            | Some content \<Rightarrow>
                (case read_throws en (filePath r) of
                   Some msg \<Rightarrow> Inl (SendFailed (ReadError msg))
                 | None \<Rightarrow> Inr (r, content)))))"

text \<open>Lines 797-829: the dispatch of the bytes read, by kind and configured mode.\<close>

definition sendEmoji_dispatch ::
  "Config \<Rightarrow> env \<Rightarrow> world \<Rightarrow> StickerRecord \<Rightarrow> buffer \<Rightarrow> nat \<Rightarrow> world \<times> reply" where
  "sendEmoji_dispatch cfg en w r fileData now =
     (if isGif r then
        (if gifMode cfg = File then
           (case sendFileWithName cfg en w fileData (fileName r) (Some (filePath r)) False now of
              (w1, Inr u) \<Rightarrow> (w1, SentGifFile (fileName r))
            | (w1, Inl e) \<Rightarrow>
                (case session_send en w1 (ImageMsg fileData ''image/gif'') of
                   (w2, Inr u) \<Rightarrow> (w2, SentGifAsImage (fileName r))
                 | (w2, Inl e2) \<Rightarrow> (w2, SendFailed e2)))
         else
           (case session_send en w (ImageMsg fileData ''image/gif'') of
              (w1, Inr u) \<Rightarrow> (w1, SentGifImage (fileName r))
            | (w1, Inl e) \<Rightarrow> (w1, SendFailed e)))
      else
        (if staticImageMode cfg = File then
           (case sendFileWithName cfg en w fileData (fileName r) (Some (filePath r)) False now of
              (w1, Inr u) \<Rightarrow> (w1, SentImageFile (fileName r))
            | (w1, Inl e) \<Rightarrow>
                (case session_send en w1 (ImageMsg fileData (mime r)) of
                   (w2, Inr u) \<Rightarrow> (w2, SentImage (fileName r))
                 | (w2, Inl e2) \<Rightarrow> (w2, SendFailed e2)))
         else
           (case session_send en w (ImageMsg fileData (mime r)) of
              (w1, Inr u) \<Rightarrow> (w1, SentImage (fileName r))
            | (w1, Inl e) \<Rightarrow> (w1, SendFailed e))))"

definition sendEmoji :: "Config \<Rightarrow> env \<Rightarrow> world \<Rightarrow> Session \<Rightarrow> int \<Rightarrow> nat \<Rightarrow> world \<times> reply" where
  "sendEmoji cfg en w s index now =
     (case sendEmoji_read cfg en w s index of
        Inl rp \<Rightarrow> (w, rp)
      | Inr (r, fileData) \<Rightarrow> sendEmoji_dispatch cfg en w r fileData now)"

subsection \<open>\<open>deleteEmoji\<close> (lines 839-876)\<close>

definition deleteEmoji :: "Config \<Rightarrow> env \<Rightarrow> world \<Rightarrow> Session \<Rightarrow> int \<Rightarrow> world \<times> reply" where
  "deleteEmoji cfg en w s index =
     (if \<not> isAlbumEnabledForGroup cfg (channelId s) then (w, AlbumDisabled)
      else if \<not> hasDeletePermission cfg s then (w, PermissionDenied (deletePermissionLevel cfg))
      else
        (let records = channel_newest_first w (channelId s) in
         if index < 1 \<or> int (length records) < index then (w, IndexInvalid (length records))
         else
           (let r = records ! nat (index - 1) in
            if files w (filePath r) \<noteq> None then
              (case unlink_throws en (filePath r) of
                 Some msg \<Rightarrow> (w, DeleteFailed (UnlinkError msg))
               | None \<Rightarrow>
                   (db_remove_id (w\<lparr>files := (files w)(filePath r := None)\<rparr>) (rec_id r),
                    Deleted (fileName r)))
            else (db_remove_id w (rec_id r), Deleted (fileName r)))))"

subsection \<open>\<open>clearAlbum\<close> (lines 881-925)\<close>

text \<open>
  \<open>String.prototype.trim\<close> removes the white space and line terminators of ECMAScript
  from both ends.
\<close>

definition js_whitespace :: "16 word \<Rightarrow> bool" where
  "js_whitespace c =
     (c \<in> set [0x9, 0xA, 0xB, 0xC, 0xD, 0x20, 0xA0, 0x1680, 0x2000, 0x2001, 0x2002, 0x2003,
              0x2004, 0x2005, 0x2006, 0x2007, 0x2008, 0x2009, 0x200A, 0x2028, 0x2029,
              0x202F, 0x205F, 0x3000, 0xFEFF])"

definition js_trim :: "jstring \<Rightarrow> jstring" where
  "js_trim t = rev (dropWhile js_whitespace (rev (dropWhile js_whitespace t)))"

text \<open>The word of consent, U+786E U+8BA4.\<close>

definition confirm_word :: jstring where
  "confirm_word = [0x786E, 0x8BA4]"

text \<open>
  The three ways the prompt can end. \<open>session.prompt(30000)\<close> yields the reply, or
  nothing once thirty seconds have passed.
\<close>

datatype decision = Confirmed | CancelledByReply | TimedOut

definition decide :: "jstring option \<Rightarrow> decision" where
  "decide answer =
     (case answer of
        None \<Rightarrow> TimedOut
      | Some t \<Rightarrow> if js_trim t = confirm_word then Confirmed else CancelledByReply)"

text \<open>One pass of the loop of lines 911-915; an exception leaves the loop.\<close>

fun unlink_all :: "env \<Rightarrow> StickerRecord list \<Rightarrow> world \<Rightarrow> world \<times> (error + unit)" where
  "unlink_all en [] w = (w, Inr ())"
| "unlink_all en (r # rs) w =
     (if files w (filePath r) \<noteq> None then
        (case unlink_throws en (filePath r) of
           Some msg \<Rightarrow> (w, Inl (UnlinkError msg))
         | None \<Rightarrow> unlink_all en rs (w\<lparr>files := (files w)(filePath r := None)\<rparr>))
      else unlink_all en rs w)"

text \<open>
  The part of \<open>clearAlbum\<close> before the prompt (lines 882-902): it ends with a final
  reply, with the exception of a failed \<open>session.send\<close>, or with the rows it has read,
  waiting for the answer.
\<close>

datatype clear_stage =
    Finished reply
  | Threw error
  | Awaiting "StickerRecord list"

definition clearAlbum_ask :: "Config \<Rightarrow> env \<Rightarrow> world \<Rightarrow> Session \<Rightarrow> world \<times> clear_stage" where
  "clearAlbum_ask cfg en w s =
     (if \<not> isAlbumEnabledForGroup cfg (channelId s) then (w, Finished AlbumDisabled)
      else if \<not> hasDeletePermission cfg s then
        (w, Finished (PermissionDenied (deletePermissionLevel cfg)))
      else
        (let records = select_channel (rows w) (channelId s) in
         if records = [] then (w, Finished AlreadyEmpty)
         else
           (case session_send en w ConfirmPrompt of
              (w1, Inl e) \<Rightarrow> (w1, Threw e)
            | (w1, Inr u) \<Rightarrow> (w1, Awaiting records))))"

text \<open>The part after the prompt (lines 903-924), given the rows read before it.\<close>

definition clearAlbum_answer ::
  "env \<Rightarrow> world \<Rightarrow> Session \<Rightarrow> StickerRecord list \<Rightarrow> jstring option \<Rightarrow> world \<times> reply" where
  "clearAlbum_answer en w s records answer =
     (if (case answer of None \<Rightarrow> True | Some t \<Rightarrow> js_trim t \<noteq> confirm_word) then (w, Cancelled)
      else
        (case unlink_all en records w of
           (w1, Inl e) \<Rightarrow> (w1, ClearFailed e)
         | (w1, Inr u) \<Rightarrow> (db_remove_channel w1 (channelId s), Cleared (length records))))"

definition clearAlbum ::
  "Config \<Rightarrow> env \<Rightarrow> world \<Rightarrow> Session \<Rightarrow> jstring option \<Rightarrow> world \<times> (error + reply)" where
  "clearAlbum cfg en w s answer =
     (case clearAlbum_ask cfg en w s of
        (w1, Finished rp) \<Rightarrow> (w1, Inr rp)
      | (w1, Threw e) \<Rightarrow> (w1, Inl e)
      | (w1, Awaiting records) \<Rightarrow>
          (case clearAlbum_answer en w1 s records answer of (w2, rp) \<Rightarrow> (w2, Inr rp)))"

section \<open>Notions used to state the properties\<close>

text \<open>
  The permission mapping in the words of the specification: level 1 in a direct context
  or without role information, otherwise the highest level among the roles held, where
  owner counts 4, admin 3, trusted 2 and anything else 1.
\<close>

definition role_level :: "string \<Rightarrow> int" where
  "role_level r =
     (if r = ''owner'' then 4 else if r = ''admin'' then 3 else if r = ''trusted'' then 2 else 1)"

definition role_flags :: "Session \<Rightarrow> string list option" where
  "role_flags s = map_option (\<lambda>a. case roles a of None \<Rightarrow> [] | Some l \<Rightarrow> l) (author s)"

definition permission_spec :: "bool \<Rightarrow> string list option \<Rightarrow> int" where
  "permission_spec direct roleInfo =
     (case roleInfo of
        None \<Rightarrow> 1
      | Some rs \<Rightarrow> if direct then 1 else Max (insert 1 (role_level ` set rs)))"

text \<open>Keys are unique and below the next key of the table.\<close>

definition ids_fresh :: "world \<Rightarrow> bool" where
  "ids_fresh w =
     (distinct (map rec_id (rows w)) \<and> list_all (\<lambda>r. rec_id r < nextId w) (rows w))"

text \<open>The path \<open>saveFile\<close> writes a content to at time \<open>t\<close>, and the row stored for it.\<close>

definition blob_path :: "env \<Rightarrow> buffer \<Rightarrow> nat \<Rightarrow> string" where
  "blob_path en buf t =
     resolve (storageDir en)
       (iso_date en t @ ''-'' @ md5_hex en buf @ ''.'' @ getExtFromMime (detectMime buf))"

definition stored_record ::
  "env \<Rightarrow> Session \<Rightarrow> Quote \<Rightarrow> buffer \<Rightarrow> item_io \<Rightarrow> nat \<Rightarrow> StickerRecord" where
  "stored_record en s q buf io k =
     \<lparr>rec_id = k, rec_channelId = channelId s, md5 = md5_hex en buf,
      ext = getExtFromMime (detectMime buf), mime = detectMime buf, rec_size = length buf,
      isGif = (detectMime buf = ''image/gif''),
      fileName = last_segment (blob_path en buf (t_save io)),
      filePath = blob_path en buf (t_save io), uploaderId = userId s,
      sourceMessageId = (case messageId q of None \<Rightarrow> [] | Some m \<Rightarrow> m),
      createdAt = t_create io\<rparr>"


text \<open>
  Passes through the ingest loop, one after the other: each step names the session and
  the quoted message of its command, the image and what the pass reads from outside. The
  loop of one command is the case of one session and one quote throughout.
\<close>

type_synonym ingest_step = "Session \<times> Quote \<times> Element \<times> item_io"

fun ingest_seq :: "Config \<Rightarrow> env \<Rightarrow> world \<Rightarrow> ingest_step list \<Rightarrow> world \<times> nat" where
  "ingest_seq cfg en w [] = (w, 0)"
| "ingest_seq cfg en w ((s, q, img, io) # rest) =
     (case convertEmoji_item cfg en s q w img io of
        (w1, ls, ok) \<Rightarrow>
          (case ingest_seq cfg en w1 rest of
             (w2, n) \<Rightarrow> (w2, (if ok then 1 else 0) + n)))"




text \<open>
  The commands that act on the world, and a run of them one after the other. \<open>grows\<close>
  relates a world to a later one: the next key has not gone down, and every row is an
  old row or carries a key that was not yet given out.
\<close>

datatype command =
    CmdConvert Session "nat \<Rightarrow> item_io"
  | CmdConvertOnly Session "nat \<Rightarrow> item_io"
  | CmdSend Session int nat
  | CmdDelete Session int
  | CmdClear Session "jstring option"

fun exec :: "Config \<Rightarrow> env \<Rightarrow> world \<Rightarrow> command \<Rightarrow> world" where
  "exec cfg en w (CmdConvert s ios) = fst (convertEmoji cfg en w s ios)"
| "exec cfg en w (CmdConvertOnly s ios) = fst (convertEmojiOnly cfg en w s ios)"
| "exec cfg en w (CmdSend s i now) = fst (sendEmoji cfg en w s i now)"
| "exec cfg en w (CmdDelete s i) = fst (deleteEmoji cfg en w s i)"
| "exec cfg en w (CmdClear s answer) = fst (clearAlbum cfg en w s answer)"

definition run :: "Config \<Rightarrow> env \<Rightarrow> world \<Rightarrow> command list \<Rightarrow> world" where
  "run cfg en w cmds = foldl (exec cfg en) w cmds"


subsection \<open>Concrete surroundings for the worked instances\<close>

text \<open>
  A configuration with the defaults of the schema, and one with capacity 5; surroundings
  in which nothing throws (the digest is a stand-in: the content in hexadecimal), in
  which every file send throws, and in which every send throws; an empty world; a GIF
  and the readings of the \<open>k\<close>-th pass; an administrator and a member of one group, a
  member of another group and an owner in a direct chat; the world after one ingest; six
  ingests in a row.
\<close>

definition demo_cfg :: Config where
  "demo_cfg =
     \<lparr>enableAlbum = True, albumEnabledGroups = [], albumMaxSize = 20, albumShowImages = True,
      deletePermissionLevel = 3, staticImageMode = Buffer, gifMode = File,
      fileTransferMode = Buffer, debug = False\<rparr>"


definition demo_env :: env where
  "demo_env =
     \<lparr>storageDir = ''/data'', md5_hex = (\<lambda>b. concat (map hex_byte b)),
      iso_date = (\<lambda>t. ''2024-01-01''), send_throws = (\<lambda>p. None),
      write_throws = (\<lambda>p. None), unlink_throws = (\<lambda>p. None), read_throws = (\<lambda>p. None)\<rparr>"

definition file_down_env :: env where
  "file_down_env =
     demo_env\<lparr>send_throws := (\<lambda>p. case p of FileMsg a b \<Rightarrow> Some ''no file api'' | _ \<Rightarrow> None)\<rparr>"

definition offline_env :: env where
  "offline_env = demo_env\<lparr>send_throws := (\<lambda>p. Some ''offline'')\<rparr>"

definition empty_world :: world where
  "empty_world = \<lparr>rows = [], nextId = 1, files = Map.empty, sent = [], timers = []\<rparr>"

definition demo_gif :: buffer where
  "demo_gif = [0x47, 0x49, 0x46, 0x38, 0x39, 0x61]"

definition demo_img :: Element where
  "demo_img = \<lparr>etype = ''img'', attr_src = Some ''http://x/a'', attr_url = None\<rparr>"

definition demo_io :: "nat \<Rightarrow> item_io" where
  "demo_io k = \<lparr>response = Inr (demo_gif @ [of_nat k]), t_save = 1000 + 10 * k,
                t_temp = 1001 + 10 * k, t_create = 1002 + 10 * k\<rparr>"

definition demo_quote :: Quote where
  "demo_quote =
     \<lparr>messageId = Some ''m1'',
      elements = [\<lparr>etype = ''img'', attr_src = Some ''http://x/a'', attr_url = None\<rparr>]\<rparr>"

definition demo_admin :: Session where
  "demo_admin =
     \<lparr>platform = ''onebot'', channelId = ''g1'', userId = ''u1'', isDirect = False,
      author = Some \<lparr>roles = Some [''admin'']\<rparr>, quote = Some demo_quote\<rparr>"


definition demo_other :: Session where
  "demo_other =
     \<lparr>platform = ''onebot'', channelId = ''g2'', userId = ''u3'', isDirect = False,
      author = Some \<lparr>roles = None\<rparr>, quote = Some demo_quote\<rparr>"

definition demo_direct :: Session where
  "demo_direct =
     \<lparr>platform = ''onebot'', channelId = ''p1'', userId = ''u2'', isDirect = True,
      author = Some \<lparr>roles = Some [''owner'']\<rparr>, quote = None\<rparr>"

definition demo_world :: world where
  "demo_world =
     fst (convertEmoji_item demo_cfg demo_env demo_admin demo_quote empty_world demo_img (demo_io 0))"


section \<open>Verification\<close>

subsection \<open>Fingerprinting\<close>

lemma hex_digit_inj:
  assumes "m < 16" and "n < 16" and "hex_digit m = hex_digit n"
  shows "m = n"
proof -
  have "\<forall>i\<in>set [0..<16]. \<forall>j\<in>set [0..<16]. hex_digit i = hex_digit j \<longrightarrow> i = j"
    by code_simp
  with assms show ?thesis by simp
qed

lemma unat_byte_less: "unat (a :: byte) < 256"
  using unsigned_less [of a, where 'a = nat] by simp

lemma hex_byte_inj:
  assumes "hex_byte a = hex_byte b"
  shows "a = b"
proof -
  have d: "unat a div 16 < 16" "unat b div 16 < 16"
    using unat_byte_less [of a] unat_byte_less [of b] by simp_all
  have m: "unat a mod 16 < 16" "unat b mod 16 < 16"
    by simp_all
  from assms have e: "hex_digit (unat a div 16) = hex_digit (unat b div 16)"
    "hex_digit (unat a mod 16) = hex_digit (unat b mod 16)"
    by (simp_all add: hex_byte_def)
  have "unat a div 16 = unat b div 16"
    by (rule hex_digit_inj [OF d e(1)])
  moreover have "unat a mod 16 = unat b mod 16"
    by (rule hex_digit_inj [OF m e(2)])
  ultimately have "unat a = unat b"
    by (metis div_mult_mod_eq)
  then show ?thesis by (simp add: word_unat_eq_iff)
qed

lemma hex_byte_length [simp]: "length (hex_byte a) = 2"
  by (simp add: hex_byte_def)

lemma hex_byte_append_eq:
  "(hex_byte x @ ys = u # v # zs) = (hex_byte x = [u, v] \<and> ys = zs)"
  by (auto simp: hex_byte_def)

lemma hex_byte_const:
  "hex_byte c = [u, v] \<Longrightarrow> (hex_byte a = [u, v]) = (a = c)"
  using hex_byte_inj by metis

lemma ascii_unset_eq:
  "(char_of (unat (x AND (0x7F :: byte))) = (char_of (unat (c :: byte)) :: char)) = (x AND 0x7F = c)"
proof -
  have m: "unat (x AND 0x7F) mod 256 = unat (x AND 0x7F)" "unat c mod 256 = unat c"
    using unat_byte_less [of "x AND 0x7F"] unat_byte_less [of c] by simp_all
  have "(char_of (unat (x AND 0x7F)) = (char_of (unat c) :: char)) = (unat (x AND 0x7F) = unat c)"
    by (simp add: char_of_eq_iff of_char_of take_bit_eq_mod m)
  also have "\<dots> = (x AND 0x7F = c)"
    by (rule word_unat_eq_iff [symmetric])
  finally show ?thesis .
qed

lemma ascii_const:
  "char_of (unat (c :: byte)) = ch \<Longrightarrow> (char_of (unat (x AND (0x7F :: byte))) = ch) = (x AND 0x7F = c)"
  using ascii_unset_eq [of x c] by auto

lemma length_ge_4:
  "\<not> length b < 4 \<Longrightarrow> \<exists>a0 a1 a2 a3 rest. b = a0 # a1 # a2 # a3 # rest"
  by (cases b; simp; cases "tl b"; simp; cases "tl (tl b)"; simp; cases "tl (tl (tl b))"; simp)

lemma detectMime_cases:
  "detectMime b =
     (if length b < 4 then ''image/unknown''
      else if take 4 b = [0x89, 0x50, 0x4E, 0x47] then ''image/png''
      else if take 3 b = [0xFF, 0xD8, 0xFF] then ''image/jpeg''
      else if take 4 b = [0x47, 0x49, 0x46, 0x38] then ''image/gif''
      else if map (\<lambda>x. x AND 0x7F) (take 4 b) = [0x52, 0x49, 0x46, 0x46] then ''image/webp''
      else ''image/unknown'')"
proof (cases "length b < 4")
  case True
  then show ?thesis by (simp add: detectMime_def)
next
  case False
  then obtain a0 a1 a2 a3 rest where b: "b = a0 # a1 # a2 # a3 # rest"
    using length_ge_4 by blast
  have k: "hex_byte 0x89 = ''89''" "hex_byte 0x50 = ''50''" "hex_byte 0x4E = ''4e''"
    "hex_byte 0x47 = ''47''" "hex_byte 0xFF = ''ff''" "hex_byte 0xD8 = ''d8''"
    "hex_byte 0x49 = ''49''" "hex_byte 0x46 = ''46''" "hex_byte 0x38 = ''38''"
    by code_simp+
  have c: "char_of (unat (0x52 :: byte)) = CHR ''R''" "char_of (unat (0x49 :: byte)) = CHR ''I''"
    "char_of (unat (0x46 :: byte)) = CHR ''F''"
    by code_simp+
  have h: "toString_hex b 0 4 = hex_byte a0 @ hex_byte a1 @ hex_byte a2 @ hex_byte a3"
    by (simp add: toString_hex_def b)
  have png: "startsWith (toString_hex b 0 4) ''89504e47'' = (take 4 b = [0x89, 0x50, 0x4E, 0x47])"
    unfolding h startsWith_def
    by (simp add: b hex_byte_append_eq hex_byte_const [OF k(1)] hex_byte_const [OF k(2)]
          hex_byte_const [OF k(3)] hex_byte_const [OF k(4)])
  have jpg: "startsWith (toString_hex b 0 4) ''ffd8ff'' = (take 3 b = [0xFF, 0xD8, 0xFF])"
    unfolding h startsWith_def
    by (simp add: b hex_byte_append_eq hex_byte_const [OF k(5)] hex_byte_const [OF k(6)])
  have gif: "startsWith (toString_hex b 0 4) ''47494638'' = (take 4 b = [0x47, 0x49, 0x46, 0x38])"
    unfolding h startsWith_def
    by (simp add: b hex_byte_append_eq hex_byte_const [OF k(4)] hex_byte_const [OF k(7)]
          hex_byte_const [OF k(8)] hex_byte_const [OF k(9)])
  have riff: "(toString_ascii b 0 4 = ''RIFF'')
                = (map (\<lambda>x. x AND 0x7F) (take 4 b) = [0x52, 0x49, 0x46, 0x46])"
    by (simp add: toString_ascii_def b ascii_const [OF c(1)] ascii_const [OF c(2)] ascii_const [OF c(3)])
  from False show ?thesis
    by (simp add: detectMime_def Let_def png jpg gif riff)
qed

lemma getExtFromMime_cases:
  "getExtFromMime m =
     (if m = ''image/png'' then ''png'' else if m = ''image/gif'' then ''gif''
      else if m = ''image/webp'' then ''webp'' else ''jpg'')"
  by (simp add: getExtFromMime_def)

lemma downloadImage_total:
  "downloadImage (Inr b) = Inr (b, detectMime b, length b)
   \<and> detectMime b \<in> {''image/png'', ''image/jpeg'', ''image/gif'', ''image/webp'', ''image/unknown''}"
  by (simp add: downloadImage_def detectMime_def Let_def)

subsection \<open>Transport, blob writes and paths\<close>

lemma session_send_frame:
  "session_send en w p = (w1, r) \<Longrightarrow>
     rows w1 = rows w \<and> nextId w1 = nextId w \<and> files w1 = files w \<and> timers w1 = timers w"
  by (auto simp: session_send_def split: option.splits)

lemma session_send_ok:
  "session_send en w p = (w1, Inr u) \<Longrightarrow> send_throws en p = None \<and> sent w1 = sent w @ [p]"
  by (auto simp: session_send_def split: option.splits)

lemma session_send_err:
  "session_send en w p = (w1, Inl e) \<Longrightarrow> send_throws en p \<noteq> None \<and> w1 = w"
  by (auto simp: session_send_def split: option.splits)

lemma saveFile_frame:
  "saveFile en w buf h ex t = (w1, r) \<Longrightarrow>
     rows w1 = rows w \<and> nextId w1 = nextId w \<and> sent w1 = sent w \<and> timers w1 = timers w"
  by (auto simp: saveFile_def Let_def split: option.splits)

lemma saveFile_ok:
  "saveFile en w buf h ex t = (w1, Inr p) \<Longrightarrow>
     p = resolve (storageDir en) (iso_date en t @ ''-'' @ h @ ''.'' @ ex)
     \<and> files w1 = (files w)(p \<mapsto> buf)"
  by (auto simp: saveFile_def Let_def split: option.splits)

lemma saveFile_err:
  "saveFile en w buf h ex t = (w1, Inl e) \<Longrightarrow> w1 = w"
  by (auto simp: saveFile_def Let_def split: option.splits)

lemma sendFileWithName_frame:
  "sendFileWithName cfg en w buf fname fpath force now = (w1, r) \<Longrightarrow>
     rows w1 = rows w \<and> nextId w1 = nextId w
     \<and> (\<forall>p. p \<noteq> resolve (storageDir en) (''temp_'' @ show_nat now @ ''_'' @ fname)
            \<longrightarrow> files w1 p = files w p)"
  by (auto simp: sendFileWithName_def session_send_def Let_def split: option.splits if_splits)

lemma deliver_frame:
  "deliver cfg en w buf mi gif fname fpath force now = (w1, r) \<Longrightarrow>
     rows w1 = rows w \<and> nextId w1 = nextId w
     \<and> (\<forall>p. p \<noteq> resolve (storageDir en) (''temp_'' @ show_nat now @ ''_'' @ fname)
            \<longrightarrow> files w1 p = files w p)"
  unfolding deliver_def
  by (auto split: if_splits prod.splits sum.splits dest!: sendFileWithName_frame session_send_frame)

lemma last_segment_no_sep: "\<forall>c\<in>set (last_segment p). \<not> is_sep c"
  unfolding last_segment_def by (auto dest: set_takeWhileD)

lemma last_segment_append:
  "\<forall>c\<in>set b. \<not> is_sep c \<Longrightarrow> last_segment (a @ b) = last_segment a @ b"
proof -
  assume a: "\<forall>c\<in>set b. \<not> is_sep c"
  have "takeWhile (\<lambda>c. \<not> is_sep c) (rev b @ rev a) = rev b @ takeWhile (\<lambda>c. \<not> is_sep c) (rev a)"
    by (rule takeWhile_append2) (use a in auto)
  then show ?thesis by (simp add: last_segment_def)
qed

lemma temp_path_differs:
  "resolve d (''temp_'' @ stamp @ ''_'' @ last_segment p) \<noteq> p"
proof
  let ?f = "last_segment p"
  assume eq: "resolve d (''temp_'' @ stamp @ ''_'' @ ?f) = p"
  have "last_segment ((d @ ''/'' @ ''temp_'' @ stamp @ ''_'') @ ?f) = last_segment (d @ ''/'' @ ''temp_'' @ stamp @ ''_'') @ ?f"
    by (rule last_segment_append) (rule last_segment_no_sep)
  moreover have "last_segment (d @ ''/'' @ ''temp_'' @ stamp @ ''_'') \<noteq> []"
    by (simp add: last_segment_def is_sep_def)
  ultimately have "length (last_segment (resolve d (''temp_'' @ stamp @ ''_'' @ ?f))) > length ?f"
    by (simp add: resolve_def)
  with eq show False by simp
qed

subsection \<open>Eviction and ordering\<close>

lemma db_remove_id_rows: "rows (db_remove_id w i) = filter (\<lambda>r. rec_id r \<noteq> i) (rows w)"
  by (simp add: db_remove_id_def)

lemma clean_one_frame:
  "nextId (clean_one en r w) = nextId w \<and> sent (clean_one en r w) = sent w
   \<and> timers (clean_one en r w) = timers w"
  by (simp add: clean_one_def db_remove_id_def split: option.splits)

lemma clean_one_rows_cases:
  "rows (clean_one en r w) = rows w \<or> rows (clean_one en r w) = filter (\<lambda>x. rec_id x \<noteq> rec_id r) (rows w)"
  by (simp add: clean_one_def db_remove_id_def split: option.splits)


lemma clean_one_files:
  "p \<noteq> filePath r \<Longrightarrow> files (clean_one en r w) p = files w p"
  by (simp add: clean_one_def db_remove_id_def split: option.splits)

lemma fold_clean_frame:
  "nextId (fold (clean_one en) ds w) = nextId w \<and> sent (fold (clean_one en) ds w) = sent w"
  by (induction ds arbitrary: w) (simp_all add: clean_one_frame)


lemma fold_clean_rows_subseq:
  "\<exists>P. rows (fold (clean_one en) ds w) = filter P (rows w)"
proof (induction ds arbitrary: w)
  case Nil
  have "rows w = filter (\<lambda>x. True) (rows w)" by simp
  then show ?case unfolding fold_simps by blast
next
  case (Cons d ds)
  obtain P where P: "rows (fold (clean_one en) ds (clean_one en d w)) = filter P (rows (clean_one en d w))"
    using Cons.IH by blast
  from clean_one_rows_cases [of en d w] show ?case
  proof
    assume "rows (clean_one en d w) = rows w"
    with P show ?thesis by auto
  next
    assume "rows (clean_one en d w) = filter (\<lambda>x. rec_id x \<noteq> rec_id d) (rows w)"
    with P have "rows (fold (clean_one en) (d # ds) w) = filter (\<lambda>x. rec_id x \<noteq> rec_id d \<and> P x) (rows w)"
      by (simp add: conj_commute)
    then show ?thesis by blast
  qed
qed



lemma orderBy_set: "set (orderBy_createdAt_desc rs) = set rs"
  by (simp add: orderBy_createdAt_desc_def)

lemma orderBy_length: "length (orderBy_createdAt_desc rs) = length rs"
  by (simp add: orderBy_createdAt_desc_def)




lemma foldr_insort_front:
  "\<forall>x\<in>set ys. f a < f x \<Longrightarrow> foldr (insort_key f) ys [a] = a # foldr (insort_key f) ys []"
  by (induction ys) (auto simp: not_le)

lemma orderBy_snoc_newest:
  "\<forall>x\<in>set ys. createdAt x < createdAt a \<Longrightarrow>
     orderBy_createdAt_desc (ys @ [a]) = a # orderBy_createdAt_desc ys"
  by (simp add: orderBy_createdAt_desc_def sort_key_def foldr_insort_front)

lemma checkAndCleanAlbum_frame:
  "nextId (checkAndCleanAlbum cfg en w ch) = nextId w
   \<and> sent (checkAndCleanAlbum cfg en w ch) = sent w
   \<and> (\<exists>P. rows (checkAndCleanAlbum cfg en w ch) = filter P (rows w))"
proof -
  have "\<exists>P. rows w = filter P (rows w)"
    by (rule exI [of _ "\<lambda>x. True"]) simp
  then show ?thesis
    by (simp add: checkAndCleanAlbum_def Let_def fold_clean_frame fold_clean_rows_subseq)
qed



lemma convertEmoji_item_success:
  assumes "convertEmoji_item cfg en s q w img io = (w', ls, True)"
  shows "\<exists>buf ln w2 w3.
      response io = Inr buf
    \<and> db_get w (channelId s) (md5_hex en buf) = []
    \<and> saveFile en (checkAndCleanAlbum cfg en w (channelId s)) buf (md5_hex en buf)
         (getExtFromMime (detectMime buf)) (t_save io) = (w2, Inr (blob_path en buf (t_save io)))
    \<and> deliver cfg en w2 buf (detectMime buf) (detectMime buf = ''image/gif'')
         (last_segment (blob_path en buf (t_save io))) (Some (blob_path en buf (t_save io)))
         False (t_temp io) = (w3, Inr ln)
    \<and> w' = db_create w3 (stored_record en s q buf io 0)
    \<and> ls = [ln]"
  using assms
  unfolding convertEmoji_item_def downloadImage_def stored_record_def blob_path_def
  by (auto simp: Let_def split: if_splits sum.splits prod.splits dest: saveFile_ok)

subsection \<open>Permission mapping\<close>

lemma role_level_range: "1 \<le> role_level r \<and> role_level r \<le> 4"
  by (simp add: role_level_def)

lemma Max_role_levels:
  "Max (insert 1 (role_level ` set rs)) =
     (if ''owner'' \<in> set rs then 4 else if ''admin'' \<in> set rs then 3
      else if ''trusted'' \<in> set rs then 2 else 1)"
proof -
  let ?S = "insert 1 (role_level ` set rs)"
  have fin: "finite ?S" by simp
  show ?thesis
  proof (cases "''owner'' \<in> set rs")
    case True
    then have "4 \<in> ?S" by (force simp: role_level_def)
    moreover have "\<forall>x\<in>?S. x \<le> 4" using role_level_range by auto
    ultimately have "Max ?S = 4" using fin by (intro Max_eqI) auto
    with True show ?thesis by simp
  next
    case no: False
    show ?thesis
    proof (cases "''admin'' \<in> set rs")
      case True
      then have "3 \<in> ?S" by (force simp: role_level_def)
      moreover have "\<forall>x\<in>?S. x \<le> 3" using no by (auto simp: role_level_def)
      ultimately have "Max ?S = 3" using fin by (intro Max_eqI) auto
      with True no show ?thesis by simp
    next
      case na: False
      show ?thesis
      proof (cases "''trusted'' \<in> set rs")
        case True
        then have "2 \<in> ?S" by (force simp: role_level_def)
        moreover have "\<forall>x\<in>?S. x \<le> 2" using no na by (auto simp: role_level_def)
        ultimately have "Max ?S = 2" using fin by (intro Max_eqI) auto
        with True no na show ?thesis by simp
      next
        case nt: False
        have "\<forall>x\<in>?S. x \<le> 1" using no na nt by (auto simp: role_level_def)
        then have "Max ?S = 1" using fin by (intro Max_eqI) auto
        with no na nt show ?thesis by simp
      qed
    qed
  qed
qed

lemma checkUserPermission_spec:
  "checkUserPermission s = permission_spec (isDirect s) (role_flags s)"
  by (simp add: checkUserPermission_def permission_spec_def role_flags_def Max_role_levels Let_def
           split: option.splits)

subsection \<open>Worked instances share these unfoldings\<close>

lemmas demo_defs = demo_cfg_def demo_env_def empty_world_def demo_quote_def demo_admin_def demo_direct_def

subsection \<open>One pass of the ingest loop\<close>

lemma stored_record_id:
  "(stored_record en s q buf io k)\<lparr>rec_id := j\<rparr> = stored_record en s q buf io j"
  by (simp add: stored_record_def)

lemma convertEmoji_item_stored:
  assumes "convertEmoji_item cfg en s q w img io = (w', ls, True)"
  shows "\<exists>buf. response io = Inr buf
    \<and> db_get w (channelId s) (md5_hex en buf) = []
    \<and> rows w' = rows (checkAndCleanAlbum cfg en w (channelId s))
                  @ [stored_record en s q buf io (nextId w)]
    \<and> nextId w' = Suc (nextId w)
    \<and> files w' (blob_path en buf (t_save io)) = Some buf"
proof -
  from convertEmoji_item_success [OF assms] obtain buf ln w2 w3 where
    r: "response io = Inr buf"
    and g: "db_get w (channelId s) (md5_hex en buf) = []"
    and sv: "saveFile en (checkAndCleanAlbum cfg en w (channelId s)) buf (md5_hex en buf)
         (getExtFromMime (detectMime buf)) (t_save io) = (w2, Inr (blob_path en buf (t_save io)))"
    and dl: "deliver cfg en w2 buf (detectMime buf) (detectMime buf = ''image/gif'')
         (last_segment (blob_path en buf (t_save io))) (Some (blob_path en buf (t_save io)))
         False (t_temp io) = (w3, Inr ln)"
    and w': "w' = db_create w3 (stored_record en s q buf io 0)"
    by blast
  let ?c = "checkAndCleanAlbum cfg en w (channelId s)"
  have r2: "rows w2 = rows ?c" "nextId w2 = nextId ?c"
    using saveFile_frame [OF sv] by simp_all
  have f2: "files w2 (blob_path en buf (t_save io)) = Some buf"
    using saveFile_ok [OF sv] by simp
  have r3: "rows w3 = rows w2" "nextId w3 = nextId w2"
    using deliver_frame [OF dl] by simp_all
  have f3: "files w3 (blob_path en buf (t_save io)) = files w2 (blob_path en buf (t_save io))"
    using deliver_frame [OF dl] temp_path_differs [of "storageDir en" "show_nat (t_temp io)" "blob_path en buf (t_save io)"]
    by (metis (no_types, lifting))
  have n: "nextId ?c = nextId w"
    by (simp add: checkAndCleanAlbum_frame)
  show ?thesis
    using r g by (simp add: w' db_create_def r2 r3 f2 f3 n stored_record_id)
qed

lemma db_get_filter:
  "db_get w ch h = [] \<Longrightarrow> rows w1 = filter P (rows w) \<Longrightarrow> db_get w1 ch h = []"
  by (auto simp: db_get_def filter_empty_conv)

lemma convertEmoji_item_not_stored:
  assumes "convertEmoji_item cfg en s q w img io = (w', ls, False)"
  shows "(\<exists>P. rows w' = filter P (rows w)) \<and> nextId w' = nextId w"
proof -
  have triv: "\<exists>P. rows w = filter P (rows w)"
    by (rule exI [of _ "\<lambda>x. True"]) simp
  obtain P where P: "rows (checkAndCleanAlbum cfg en w (channelId s)) = filter P (rows w)"
    using checkAndCleanAlbum_frame by blast
  have n: "nextId (checkAndCleanAlbum cfg en w (channelId s)) = nextId w"
    by (simp add: checkAndCleanAlbum_frame)
  show ?thesis
    using assms triv
    unfolding convertEmoji_item_def downloadImage_def
    apply (simp add: Let_def split: if_splits sum.splits prod.splits)
    apply (auto dest!: saveFile_frame deliver_frame simp: P n)
    done
qed

lemma convertEmoji_item_after_save:
  assumes "truthy (url_of img)" and "response io = Inr buf"
    and "db_get w (channelId s) (md5_hex en buf) = []"
    and "write_throws en (blob_path en buf (t_save io)) = None"
  shows "convertEmoji_item cfg en s q w img io =
     (case deliver cfg en
             ((checkAndCleanAlbum cfg en w (channelId s))
                \<lparr>files := (files (checkAndCleanAlbum cfg en w (channelId s)))
                            (blob_path en buf (t_save io) \<mapsto> buf)\<rparr>)
             buf (detectMime buf) (detectMime buf = ''image/gif'')
             (last_segment (blob_path en buf (t_save io))) (Some (blob_path en buf (t_save io)))
             False (t_temp io) of
        (w3, Inl e) \<Rightarrow> (w3, [Failed e], False)
      | (w3, Inr ln) \<Rightarrow> (db_create w3 (stored_record en s q buf io 0), [ln], True))"
  using assms
  by (simp add: convertEmoji_item_def downloadImage_def saveFile_def blob_path_def
        stored_record_def Let_def split: prod.splits sum.splits)

lemma deliver_error:
  "deliver cfg en w buf mi gif fname fpath force now = (w1, Inl e) \<Longrightarrow> \<exists>m. e = SendError m"
  unfolding deliver_def
  by (auto split: if_splits prod.splits sum.splits dest!: session_send_err simp: session_send_def split: option.splits)

lemma convertEmoji_item_rows_cases:
  assumes "convertEmoji_item cfg en s q w img io = (w', ls, False)"
  shows "rows w' = rows w \<or> rows w' = rows (checkAndCleanAlbum cfg en w (channelId s))"
  using assms
  unfolding convertEmoji_item_def downloadImage_def
  apply (simp add: Let_def split: if_splits sum.splits prod.splits)
  apply (auto dest!: saveFile_frame deliver_frame)
  done

subsection \<open>Fallback of the delivery\<close>

lemma sendFileWithName_throws_indep:
  "isl (snd (sendFileWithName cfg en wa buf fname fpath force now))
     = isl (snd (sendFileWithName cfg en w buf fname fpath force now))"
  by (simp add: sendFileWithName_def session_send_def Let_def split: option.splits)

lemma sendFileWithName_throws_sent:
  "sendFileWithName cfg en w buf fname fpath force now = (w1, Inl e) \<Longrightarrow> sent w1 = sent w"
  by (auto simp: sendFileWithName_def session_send_def Let_def split: option.splits if_splits)

lemma deliver_fallback:
  assumes mode: "(if gif then gifMode cfg else staticImageMode cfg) = File"
    and fails: "isl (snd (sendFileWithName cfg en wa buf fname fpath force now))"
    and kind: "gif \<longrightarrow> mi = ''image/gif''"
  shows "\<exists>w1. sent w1 = sent w \<and>
     deliver cfg en w buf mi gif fname fpath force now =
       (case send_throws en (ImageMsg buf mi) of
          None \<Rightarrow> (w1\<lparr>sent := sent w1 @ [ImageMsg buf mi]\<rparr>,
                    Inr (if gif then GifAsImageFallback else ImageConverted))
        | Some m \<Rightarrow> (w1, Inl (SendError m)))"
proof -
  from fails have "isl (snd (sendFileWithName cfg en w buf fname fpath force now))"
    using sendFileWithName_throws_indep [of cfg en wa buf fname fpath force now w] by blast
  then obtain w1 e where sf: "sendFileWithName cfg en w buf fname fpath force now = (w1, Inl e)"
    by (metis isl_def prod.collapse)
  have "sent w1 = sent w"
    by (rule sendFileWithName_throws_sent [OF sf])
  moreover have "deliver cfg en w buf mi gif fname fpath force now =
       (case send_throws en (ImageMsg buf mi) of
          None \<Rightarrow> (w1\<lparr>sent := sent w1 @ [ImageMsg buf mi]\<rparr>,
                    Inr (if gif then GifAsImageFallback else ImageConverted))
        | Some m \<Rightarrow> (w1, Inl (SendError m)))"
    using mode kind
    by (cases gif) (simp_all add: deliver_def sf session_send_def split: option.splits)
  ultimately show ?thesis by blast
qed

subsection \<open>Deleting by index and clearing\<close>




lemma channel_newest_first_files [simp]:
  "channel_newest_first (w\<lparr>files := f\<rparr>) ch = channel_newest_first w ch"
  by (simp add: channel_newest_first_def)

lemma deleteEmoji_in_range:
  assumes enabled: "isAlbumEnabledForGroup cfg (channelId s)"
    and perm: "hasDeletePermission cfg s"
    and lo: "1 \<le> i" and hi: "i \<le> int (length (channel_newest_first w (channelId s)))"
    and nothrow: "unlink_throws en (filePath (channel_newest_first w (channelId s) ! nat (i - 1))) = None"
  shows "deleteEmoji cfg en w s i =
     (db_remove_id (w\<lparr>files := (files w)(filePath (channel_newest_first w (channelId s) ! nat (i - 1)) := None)\<rparr>)
        (rec_id (channel_newest_first w (channelId s) ! nat (i - 1))),
      Deleted (fileName (channel_newest_first w (channelId s) ! nat (i - 1))))"
proof -
  let ?r = "channel_newest_first w (channelId s) ! nat (i - 1)"
  have "files w (filePath ?r) = None \<Longrightarrow> w\<lparr>files := (files w)(filePath ?r := None)\<rparr> = w"
    by (simp add: fun_upd_idem)
  then show ?thesis
    using assms by (auto simp: deleteEmoji_def Let_def)
qed


lemma unlink_all_ok:
  "\<forall>r\<in>set rs. unlink_throws en (filePath r) = None \<Longrightarrow>
     \<exists>w1. unlink_all en rs w = (w1, Inr ()) \<and> rows w1 = rows w \<and> nextId w1 = nextId w
        \<and> sent w1 = sent w
        \<and> (\<forall>p. files w1 p = (if p \<in> filePath ` set rs then None else files w p))"
proof (induction rs arbitrary: w)
  case Nil
  then show ?case by simp
next
  case (Cons r rs)
  then have nt: "unlink_throws en (filePath r) = None"
    and rest: "\<forall>r\<in>set rs. unlink_throws en (filePath r) = None"
    by simp_all
  show ?case
  proof (cases "files w (filePath r) = None")
    case True
    from Cons.IH [OF rest, of w] obtain w1 where
      "unlink_all en rs w = (w1, Inr ())" "rows w1 = rows w" "nextId w1 = nextId w" "sent w1 = sent w"
      "\<forall>p. files w1 p = (if p \<in> filePath ` set rs then None else files w p)"
      by blast
    with True show ?thesis by auto
  next
    case False
    let ?w = "w\<lparr>files := (files w)(filePath r := None)\<rparr>"
    from Cons.IH [OF rest, of ?w] obtain w1 where
      "unlink_all en rs ?w = (w1, Inr ())" "rows w1 = rows ?w" "nextId w1 = nextId ?w" "sent w1 = sent ?w"
      "\<forall>p. files w1 p = (if p \<in> filePath ` set rs then None else files ?w p)"
      by blast
    with False nt show ?thesis by auto
  qed
qed

lemma decide_Confirmed:
  "(decide answer = Confirmed) = (\<exists>t. answer = Some t \<and> js_trim t = confirm_word)"
  by (simp add: decide_def split: option.splits)

subsection \<open>A stored item and the order of its channel\<close>

lemma select_channel_append:
  "select_channel (xs @ ys) ch = select_channel xs ch @ select_channel ys ch"
  by (simp add: select_channel_def)

lemma stored_record_fields [simp]:
  "rec_id (stored_record en s q buf io k) = k"
  "rec_channelId (stored_record en s q buf io k) = channelId s"
  "md5 (stored_record en s q buf io k) = md5_hex en buf"
  "createdAt (stored_record en s q buf io k) = t_create io"
  "filePath (stored_record en s q buf io k) = blob_path en buf (t_save io)"
  "fileName (stored_record en s q buf io k) = last_segment (blob_path en buf (t_save io))"
  "mime (stored_record en s q buf io k) = detectMime buf"
  "isGif (stored_record en s q buf io k) = (detectMime buf = ''image/gif'')"
  by (simp_all add: stored_record_def)

lemma ids_fresh_filter_snoc:
  assumes "ids_fresh w" and "rows w' = filter P (rows w) @ [r]" and "rec_id r = nextId w"
    and "nextId w' = Suc (nextId w)"
  shows "ids_fresh w'"
proof -
  from assms(1) have d: "distinct (map rec_id (rows w))"
    and b: "\<forall>x\<in>set (rows w). rec_id x < nextId w"
    by (simp_all add: ids_fresh_def list_all_iff)
  have "distinct (map rec_id (filter P (rows w)))"
    using d by (rule distinct_map_filter)
  moreover have "rec_id r \<notin> rec_id ` set (filter P (rows w))"
    using b assms(3) by auto
  ultimately have "distinct (map rec_id (rows w'))"
    by (simp add: assms(2))
  moreover have "\<forall>x\<in>set (rows w'). rec_id x < nextId w'"
    using b assms(2,3,4) by auto
  ultimately show ?thesis by (simp add: ids_fresh_def list_all_iff)
qed

lemma convertEmoji_item_stored_ids_fresh:
  assumes "convertEmoji_item cfg en s q w img io = (w', ls, True)" and "ids_fresh w"
  shows "ids_fresh w'"
proof -
  from convertEmoji_item_stored [OF assms(1)] obtain buf where
    r: "rows w' = rows (checkAndCleanAlbum cfg en w (channelId s)) @ [stored_record en s q buf io (nextId w)]"
    and n: "nextId w' = Suc (nextId w)"
    by blast
  obtain P where P: "rows (checkAndCleanAlbum cfg en w (channelId s)) = filter P (rows w)"
    using checkAndCleanAlbum_frame by blast
  show ?thesis
    by (rule ids_fresh_filter_snoc [OF assms(2) r [unfolded P] _ n]) simp
qed

lemma convertEmoji_item_stored_newest_first:
  assumes run: "convertEmoji_item cfg en s q w img io = (w', ls, True)"
    and resp: "response io = Inr buf"
    and newest: "\<forall>r\<in>set (select_channel (rows w) (channelId s)). createdAt r < t_create io"
  shows "channel_newest_first w' (channelId s)
           = stored_record en s q buf io (nextId w)
             # channel_newest_first (checkAndCleanAlbum cfg en w (channelId s)) (channelId s)"
proof -
  let ?c = "checkAndCleanAlbum cfg en w (channelId s)"
  let ?r = "stored_record en s q buf io (nextId w)"
  from convertEmoji_item_stored [OF run] resp have r: "rows w' = rows ?c @ [?r]"
    by auto
  obtain P where P: "rows ?c = filter P (rows w)"
    using checkAndCleanAlbum_frame by blast
  have older: "\<forall>x\<in>set (select_channel (rows ?c) (channelId s)). createdAt x < createdAt ?r"
    using newest by (auto simp: P select_channel_def)
  have "select_channel (rows w') (channelId s) = select_channel (rows ?c) (channelId s) @ [?r]"
    by (simp add: r select_channel_append) (simp add: select_channel_def)
  then show ?thesis
    by (simp add: channel_newest_first_def orderBy_snoc_newest [OF older])
qed

lemma clean_one_other_channel:
  assumes "\<forall>x\<in>set (rows w). rec_id x = rec_id r \<longrightarrow> rec_channelId x \<noteq> ch'"
  shows "select_channel (rows (clean_one en r w)) ch' = select_channel (rows w) ch'"
proof -
  have "select_channel (filter (\<lambda>x. rec_id x \<noteq> rec_id r) (rows w)) ch' = select_channel (rows w) ch'"
    unfolding select_channel_def filter_filter
    using assms by (intro filter_cong) auto
  with clean_one_rows_cases [of en r w] show ?thesis by auto
qed

lemma clean_one_rows_subset: "set (rows (clean_one en r w)) \<subseteq> set (rows w)"
  using clean_one_rows_cases [of en r w] by auto

lemma fold_clean_other_channel:
  assumes "\<forall>d\<in>set ds. \<forall>x\<in>set (rows w). rec_id x = rec_id d \<longrightarrow> rec_channelId x \<noteq> ch'"
  shows "select_channel (rows (fold (clean_one en) ds w)) ch' = select_channel (rows w) ch'"
  using assms
proof (induction ds arbitrary: w)
  case Nil
  then show ?case by simp
next
  case (Cons d ds)
  have "\<forall>e\<in>set ds. \<forall>x\<in>set (rows (clean_one en d w)). rec_id x = rec_id e \<longrightarrow> rec_channelId x \<noteq> ch'"
    using Cons.prems clean_one_rows_subset [of en d w] by auto
  from Cons.IH [OF this] have
    "select_channel (rows (fold (clean_one en) ds (clean_one en d w))) ch'
       = select_channel (rows (clean_one en d w)) ch'" .
  also have "\<dots> = select_channel (rows w) ch'"
    using Cons.prems by (intro clean_one_other_channel) auto
  finally show ?case by simp
qed

lemma checkAndCleanAlbum_other_channel:
  assumes dist: "distinct (map rec_id (rows w))" and other: "ch' \<noteq> ch"
  shows "select_channel (rows (checkAndCleanAlbum cfg en w ch)) ch' = select_channel (rows w) ch'"
proof (cases "albumMaxSize cfg \<le> int (length (channel_newest_first w ch))")
  case False
  then show ?thesis by (simp add: checkAndCleanAlbum_def Let_def)
next
  case True
  let ?ds = "js_slice (channel_newest_first w ch) (albumMaxSize cfg - 1)"
  have sub: "set ?ds \<subseteq> set (select_channel (rows w) ch)"
    by (auto simp: js_slice_def channel_newest_first_def orderBy_set dest: in_set_dropD)
  have "\<forall>d\<in>set ?ds. \<forall>x\<in>set (rows w). rec_id x = rec_id d \<longrightarrow> rec_channelId x \<noteq> ch'"
  proof (intro ballI impI)
    fix d x
    assume d: "d \<in> set ?ds" and x: "x \<in> set (rows w)" and e: "rec_id x = rec_id d"
    from d sub have dw: "d \<in> set (rows w)" and dc: "rec_channelId d = ch"
      by (auto simp: select_channel_def)
    from dist x dw e have "x = d"
      by (auto simp: distinct_map inj_on_def)
    with dc other show "rec_channelId x \<noteq> ch'" by simp
  qed
  from fold_clean_other_channel [OF this] True show ?thesis
    by (simp add: checkAndCleanAlbum_def Let_def)
qed

lemma convertEmoji_item_stored_other_channel:
  assumes run: "convertEmoji_item cfg en s q w img io = (w', ls, True)"
    and dist: "distinct (map rec_id (rows w))" and other: "ch' \<noteq> channelId s"
  shows "select_channel (rows w') ch' = select_channel (rows w) ch'"
proof -
  from convertEmoji_item_stored [OF run] obtain buf where
    r: "rows w' = rows (checkAndCleanAlbum cfg en w (channelId s)) @ [stored_record en s q buf io (nextId w)]"
    by blast
  have "select_channel (rows w') ch' = select_channel (rows (checkAndCleanAlbum cfg en w (channelId s))) ch'"
    using other by (simp add: r select_channel_append) (simp add: select_channel_def)
  with checkAndCleanAlbum_other_channel [OF dist other] show ?thesis by simp
qed

subsection \<open>Evicted files and sequences of ingests\<close>







lemma convertEmoji_loop_ingest_seq:
  "convertEmoji_loop cfg en s q w items = (w', ls, n) \<Longrightarrow>
     ingest_seq cfg en w (map (\<lambda>(img, io). (s, q, img, io)) items) = (w', n)"
proof (induction items arbitrary: w w' ls n)
  case Nil
  then show ?case by simp
next
  case (Cons it rest)
  obtain img io where it: "it = (img, io)" by (cases it)
  obtain w1 l1 ok where i: "convertEmoji_item cfg en s q w img io = (w1, l1, ok)"
    by (metis prod_cases3)
  obtain w2 l2 n2 where r: "convertEmoji_loop cfg en s q w1 rest = (w2, l2, n2)"
    by (metis prod_cases3)
  from Cons.IH [OF r] Cons.prems show ?case
    by (simp add: it i r)
qed

lemma ingest_seq_append:
  "ingest_seq cfg en w (xs @ ys) =
     (case ingest_seq cfg en w xs of
        (w1, n1) \<Rightarrow> (case ingest_seq cfg en w1 ys of (w2, n2) \<Rightarrow> (w2, n1 + n2)))"
  by (induction xs arbitrary: w) (auto split: prod.splits)



subsection \<open>Keys are never given out twice\<close>



















section \<open>The claims\<close>

text \<open>
  C1. Dedup. Let an ingest of the content \<open>buf\<close> into a channel have stored it (the pass
  through the loop counted a success). A second ingest of the same content into the same
  channel, by any member, under any configuration, leaves the world as it is (no second
  blob, no second row), pushes the line that names the existing record by its key, and
  counts neither a success nor a failure; the table holds exactly one row for the channel
  and the digest of the content: the row the first ingest created.
\<close>

theorem C1_dedup:
  assumes content: "response io = Inr buf"
    and first: "convertEmoji_item cfg en s q w img io = (w1, ls1, True)"
    and channel: "channelId s' = channelId s"
    and url: "truthy (url_of img')"
    and again: "response io' = Inr buf"
  shows "convertEmoji_item cfg' en s' q' w1 img' io' = (w1, [AlreadyExists (nextId w)], False)
    \<and> db_get w1 (channelId s) (md5_hex en buf) = [stored_record en s q buf io (nextId w)]"
proof -
  from convertEmoji_item_stored [OF first] content have
    g: "db_get w (channelId s) (md5_hex en buf) = []"
    and r1: "rows w1 = rows (checkAndCleanAlbum cfg en w (channelId s))
                  @ [stored_record en s q buf io (nextId w)]"
    by auto
  obtain P where P: "rows (checkAndCleanAlbum cfg en w (channelId s)) = filter P (rows w)"
    using checkAndCleanAlbum_frame by blast
  have "db_get (checkAndCleanAlbum cfg en w (channelId s)) (channelId s) (md5_hex en buf) = []"
    by (rule db_get_filter [OF g P])
  then have one: "db_get w1 (channelId s) (md5_hex en buf) = [stored_record en s q buf io (nextId w)]"
    by (simp add: db_get_def r1 stored_record_def)
  then have "convertEmoji_item cfg' en s' q' w1 img' io' = (w1, [AlreadyExists (nextId w)], False)"
    using url again channel
    by (simp add: convertEmoji_item_def downloadImage_def Let_def stored_record_def)
  with one show ?thesis by simp
qed

theorem C1_dedup_witness:
  "response (demo_io 0) = Inr (demo_gif @ [0])
   \<and> snd (snd (convertEmoji_item demo_cfg demo_env demo_admin demo_quote empty_world demo_img (demo_io 0)))
   \<and> truthy (url_of demo_img)
   \<and> convertEmoji_item demo_cfg demo_env demo_admin demo_quote
        (fst (convertEmoji_item demo_cfg demo_env demo_admin demo_quote empty_world demo_img (demo_io 0)))
        demo_img (demo_io 0)
       = (fst (convertEmoji_item demo_cfg demo_env demo_admin demo_quote empty_world demo_img (demo_io 0)),
          [AlreadyExists 1], False)
   \<and> length (db_get (fst (convertEmoji_item demo_cfg demo_env demo_admin demo_quote empty_world demo_img (demo_io 0)))
        ''g1'' (md5_hex demo_env (demo_gif @ [0]))) = 1"
proof -
  let ?x = "convertEmoji_item demo_cfg demo_env demo_admin demo_quote empty_world demo_img (demo_io 0)"
  have c: "response (demo_io 0) = Inr (demo_gif @ [0])"
    by (simp add: demo_io_def)
  have ok: "snd (snd ?x)"
    by code_simp
  then have first: "?x = (fst ?x, fst (snd ?x), True)"
    by (metis prod.collapse)
  have u: "truthy (url_of demo_img)"
    by (simp add: truthy_def url_of_def demo_img_def)
  have ch: "channelId demo_admin = ''g1''" "nextId empty_world = 1"
    by (simp_all add: demo_defs)
  show ?thesis
    using C1_dedup [OF c first refl u c, of demo_cfg demo_quote] c ok u
    by (simp add: ch)
qed



text \<open>
  C3. The permission mapping is the one of the specification: level 1 in a direct
  context or without an author, otherwise the highest matching role (owner 4, admin 3,
  trusted 2, anything else 1). In a channel with the album enabled, \<open>deleteEmoji\<close> and
  \<open>clearAlbum\<close> answer with the permission refusal exactly when the level is below the
  configured \<open>deletePermissionLevel\<close>.
\<close>

theorem C3_permission_gate:
  "checkUserPermission s = permission_spec (isDirect s) (role_flags s)
   \<and> hasDeletePermission cfg s = (deletePermissionLevel cfg \<le> permission_spec (isDirect s) (role_flags s))
   \<and> (isAlbumEnabledForGroup cfg (channelId s) \<longrightarrow>
        (deleteEmoji cfg en w s i = (w, PermissionDenied (deletePermissionLevel cfg)))
          = (\<not> deletePermissionLevel cfg \<le> permission_spec (isDirect s) (role_flags s))
        \<and> (clearAlbum cfg en w s answer = (w, Inr (PermissionDenied (deletePermissionLevel cfg))))
          = (\<not> deletePermissionLevel cfg \<le> permission_spec (isDirect s) (role_flags s)))"
  apply (intro conjI impI)
  apply (rule checkUserPermission_spec)
  apply (simp add: hasDeletePermission_def checkUserPermission_spec)
  apply (auto simp add: deleteEmoji_def hasDeletePermission_def checkUserPermission_spec Let_def split: option.splits)[1]
  apply (auto simp add: clearAlbum_def clearAlbum_ask_def clearAlbum_answer_def session_send_def hasDeletePermission_def checkUserPermission_spec Let_def split: option.splits prod.splits sum.splits)
  done

theorem C3_permission_gate_witness:
  "isAlbumEnabledForGroup demo_cfg (channelId demo_direct)
   \<and> checkUserPermission demo_admin = 3
   \<and> hasDeletePermission demo_cfg demo_admin
   \<and> checkUserPermission demo_direct = 1
   \<and> deleteEmoji demo_cfg demo_env empty_world demo_direct 1
        = (empty_world, PermissionDenied 3)
   \<and> clearAlbum demo_cfg demo_env empty_world demo_direct None
        = (empty_world, Inr (PermissionDenied 3))"
proof -
  have en: "isAlbumEnabledForGroup demo_cfg (channelId demo_direct)"
    by (simp add: isAlbumEnabledForGroup_def demo_defs)
  have a: "permission_spec (isDirect demo_admin) (role_flags demo_admin) = 3"
    by (simp add: permission_spec_def role_flags_def role_level_def demo_defs)
  have d: "permission_spec (isDirect demo_direct) (role_flags demo_direct) = 1"
    by (simp add: permission_spec_def role_flags_def demo_defs)
  have lv: "deletePermissionLevel demo_cfg = 3"
    by (simp add: demo_defs)
  show ?thesis
    using C3_permission_gate [of demo_admin demo_cfg demo_env empty_world 1 None]
      C3_permission_gate [of demo_direct demo_cfg demo_env empty_world 1 None]
    by (simp add: en a d lv)
qed

text \<open>
  C4. Clear-all confirmation. In a non-empty channel, for a member allowed to clear and
  a prompt that can be sent: before the answer only the prompt is sent, the rows and
  files are untouched, and the command waits with the rows it has read. An answer other
  than the word of consent after trimming, or no answer in time, ends the command with
  the cancellation reply and no other change. The word of consent removes the file of
  every row of the channel and then every row of the channel, and no other file or row
  (unless an unlink throws).
\<close>

theorem C4_clear_confirmation:
  assumes enabled: "isAlbumEnabledForGroup cfg (channelId s)"
    and perm: "hasDeletePermission cfg s"
    and nonempty: "select_channel (rows w) (channelId s) \<noteq> []"
    and prompt: "send_throws en ConfirmPrompt = None"
  shows "clearAlbum_ask cfg en w s
           = (w\<lparr>sent := sent w @ [ConfirmPrompt]\<rparr>, Awaiting (select_channel (rows w) (channelId s)))
    \<and> (decide answer \<noteq> Confirmed \<longrightarrow>
          clearAlbum cfg en w s answer = (w\<lparr>sent := sent w @ [ConfirmPrompt]\<rparr>, Inr Cancelled))
    \<and> (decide answer = Confirmed
        \<and> (\<forall>r\<in>set (select_channel (rows w) (channelId s)). unlink_throws en (filePath r) = None)
       \<longrightarrow> (\<exists>w'. clearAlbum cfg en w s answer
                    = (w', Inr (Cleared (length (select_channel (rows w) (channelId s)))))
              \<and> rows w' = filter (\<lambda>r. rec_channelId r \<noteq> channelId s) (rows w)
              \<and> select_channel (rows w') (channelId s) = []
              \<and> (\<forall>p. files w' p =
                     (if p \<in> filePath ` set (select_channel (rows w) (channelId s)) then None
                      else files w p))))"
proof (intro conjI impI)
  let ?w1 = "w\<lparr>sent := sent w @ [ConfirmPrompt]\<rparr>"
  let ?rs = "select_channel (rows w) (channelId s)"
  show ask: "clearAlbum_ask cfg en w s = (?w1, Awaiting ?rs)"
    using assms by (simp add: clearAlbum_ask_def session_send_def Let_def)
  {
    assume "decide answer \<noteq> Confirmed"
    then show "clearAlbum cfg en w s answer = (?w1, Inr Cancelled)"
      by (auto simp: clearAlbum_def ask clearAlbum_answer_def decide_def split: option.splits if_splits)
  }
  assume a: "decide answer = Confirmed \<and> (\<forall>r\<in>set ?rs. unlink_throws en (filePath r) = None)"
  then obtain t where t: "answer = Some t" "js_trim t = confirm_word"
    by (auto simp: decide_Confirmed)
  from a unlink_all_ok [of ?rs en ?w1] obtain w2 where
    u: "unlink_all en ?rs ?w1 = (w2, Inr ())" and r2: "rows w2 = rows w"
    and f2: "\<forall>p. files w2 p = (if p \<in> filePath ` set ?rs then None else files w p)"
    by auto
  have c: "clearAlbum cfg en w s answer = (db_remove_channel w2 (channelId s), Inr (Cleared (length ?rs)))"
    by (simp add: clearAlbum_def ask clearAlbum_answer_def t u)
  show "\<exists>w'. clearAlbum cfg en w s answer = (w', Inr (Cleared (length ?rs)))
              \<and> rows w' = filter (\<lambda>r. rec_channelId r \<noteq> channelId s) (rows w)
              \<and> select_channel (rows w') (channelId s) = []
              \<and> (\<forall>p. files w' p = (if p \<in> filePath ` set ?rs then None else files w p))"
    unfolding c using r2 f2
    by (simp add: db_remove_channel_def select_channel_def filter_empty_conv)
qed

theorem C4_clear_confirmation_witness:
  "isAlbumEnabledForGroup demo_cfg (channelId demo_admin)
   \<and> hasDeletePermission demo_cfg demo_admin
   \<and> select_channel (rows demo_world) (channelId demo_admin) \<noteq> []
   \<and> send_throws demo_env ConfirmPrompt = None
   \<and> decide None = TimedOut
   \<and> clearAlbum demo_cfg demo_env demo_world demo_admin None
        = (demo_world\<lparr>sent := sent demo_world @ [ConfirmPrompt]\<rparr>, Inr Cancelled)
   \<and> decide (Some [0x786E]) = CancelledByReply
   \<and> clearAlbum demo_cfg demo_env demo_world demo_admin (Some [0x786E])
        = (demo_world\<lparr>sent := sent demo_world @ [ConfirmPrompt]\<rparr>, Inr Cancelled)
   \<and> decide (Some [0x20, 0x786E, 0x8BA4, 0xA]) = Confirmed
   \<and> snd (clearAlbum demo_cfg demo_env demo_world demo_admin (Some [0x20, 0x786E, 0x8BA4, 0xA]))
        = Inr (Cleared 1)
   \<and> rows (fst (clearAlbum demo_cfg demo_env demo_world demo_admin (Some [0x20, 0x786E, 0x8BA4, 0xA]))) = []
   \<and> files (fst (clearAlbum demo_cfg demo_env demo_world demo_admin (Some [0x20, 0x786E, 0x8BA4, 0xA])))
        ''/data/2024-01-01-47494638396100.gif'' = None
   \<and> files demo_world ''/data/2024-01-01-47494638396100.gif'' = Some (demo_gif @ [0])"
proof -
  let ?ch = "channelId demo_admin"
  let ?yes = "Some [0x20, 0x786E, 0x8BA4, 0xA :: 16 word]"
  have en: "isAlbumEnabledForGroup demo_cfg ?ch"
    by (simp add: isAlbumEnabledForGroup_def demo_defs)
  have pm: "hasDeletePermission demo_cfg demo_admin"
    by (simp add: hasDeletePermission_def checkUserPermission_def demo_defs)
  have ne: "select_channel (rows demo_world) ?ch \<noteq> []"
    by code_simp
  have pr: "send_throws demo_env ConfirmPrompt = None"
    by (simp add: demo_env_def)
  have d1: "decide None = TimedOut" by (simp add: decide_def)
  have d2: "decide (Some [0x786E]) = CancelledByReply" by code_simp
  have d3: "decide ?yes = Confirmed" by code_simp
  have nt: "\<forall>r\<in>set (select_channel (rows demo_world) ?ch). unlink_throws demo_env (filePath r) = None"
    by (simp add: demo_env_def)
  have len: "length (select_channel (rows demo_world) ?ch) = 1" by code_simp
  have flt: "filter (\<lambda>r. rec_channelId r \<noteq> ?ch) (rows demo_world) = []" by code_simp
  have mem: "''/data/2024-01-01-47494638396100.gif'' \<in> filePath ` set (select_channel (rows demo_world) ?ch)"
    by code_simp
  have before: "files demo_world ''/data/2024-01-01-47494638396100.gif'' = Some (demo_gif @ [0])"
    by code_simp
  note th = C4_clear_confirmation [OF en pm ne pr]
  from th [of None] d1
  have a: "clearAlbum demo_cfg demo_env demo_world demo_admin None
        = (demo_world\<lparr>sent := sent demo_world @ [ConfirmPrompt]\<rparr>, Inr Cancelled)"
    by simp
  from th [of "Some [0x786E]"] d2
  have b: "clearAlbum demo_cfg demo_env demo_world demo_admin (Some [0x786E])
        = (demo_world\<lparr>sent := sent demo_world @ [ConfirmPrompt]\<rparr>, Inr Cancelled)"
    by simp
  from th [of ?yes] d3 nt obtain w' where
    c: "clearAlbum demo_cfg demo_env demo_world demo_admin ?yes
          = (w', Inr (Cleared (length (select_channel (rows demo_world) ?ch))))"
    and r: "rows w' = filter (\<lambda>r. rec_channelId r \<noteq> ?ch) (rows demo_world)"
    and f: "\<forall>p. files w' p =
              (if p \<in> filePath ` set (select_channel (rows demo_world) ?ch) then None
               else files demo_world p)"
    by blast
  have c1: "snd (clearAlbum demo_cfg demo_env demo_world demo_admin ?yes) = Inr (Cleared 1)"
    by (simp add: c len)
  have c2: "rows (fst (clearAlbum demo_cfg demo_env demo_world demo_admin ?yes)) = []"
    by (simp add: c r flt)
  have c3: "files (fst (clearAlbum demo_cfg demo_env demo_world demo_admin ?yes))
        ''/data/2024-01-01-47494638396100.gif'' = None"
    using f mem by (simp add: c)
  from en pm ne pr d1 d2 d3 a b c1 c2 c3 before show ?thesis by simp
qed

text \<open>
  C5. Delivery fallback. Let an item be dispatched in file mode (\<open>gifMode\<close> for a GIF,
  \<open>staticImageMode\<close> otherwise) and let the file send throw. In \<open>convertEmoji\<close> (the
  content is new and its blob was written) and in \<open>convertEmojiOnly\<close> alike: if the
  image send of the same bytes and MIME type goes through, that image is the one payload
  delivered, the line pushed is the fallback line of the kind, not a failure line, and
  the item is counted; only if the image send throws as well is the failure line pushed
  and the item not counted.
\<close>

theorem C5_delivery_fallback:
  assumes mode: "(if detectMime buf = ''image/gif'' then gifMode cfg else staticImageMode cfg) = File"
    and url: "truthy (url_of img)"
    and resp: "response io = Inr buf"
  shows "(db_get w (channelId s) (md5_hex en buf) = []
          \<and> write_throws en (blob_path en buf (t_save io)) = None
          \<and> isl (snd (sendFileWithName cfg en wa buf (last_segment (blob_path en buf (t_save io)))
                        (Some (blob_path en buf (t_save io))) False (t_temp io)))
        \<longrightarrow> (case send_throws en (ImageMsg buf (detectMime buf)) of
               None \<Rightarrow>
                 (\<exists>w'. convertEmoji_item cfg en s q w img io =
                         (w', [if detectMime buf = ''image/gif'' then GifAsImageFallback else ImageConverted], True)
                      \<and> sent w' = sent w @ [ImageMsg buf (detectMime buf)])
             | Some m \<Rightarrow>
                 (\<exists>w'. convertEmoji_item cfg en s q w img io = (w', [Failed (SendError m)], False)
                      \<and> sent w' = sent w)))
    \<and> (isl (snd (sendFileWithName cfg en wa buf
                   (''temp-'' @ take 8 (md5_hex en buf) @ ''.'' @ getExtFromMime (detectMime buf))
                   None True (t_temp io)))
        \<longrightarrow> (case send_throws en (ImageMsg buf (detectMime buf)) of
               None \<Rightarrow>
                 (\<exists>w'. convertEmojiOnly_item cfg en w img io =
                         (w', [if detectMime buf = ''image/gif'' then GifAsImageFallback else ImageConverted], True)
                      \<and> sent w' = sent w @ [ImageMsg buf (detectMime buf)])
             | Some m \<Rightarrow>
                 (\<exists>w'. convertEmojiOnly_item cfg en w img io = (w', [Failed (SendError m)], False)
                      \<and> sent w' = sent w)))"
proof (intro conjI impI)
  assume a: "db_get w (channelId s) (md5_hex en buf) = []
          \<and> write_throws en (blob_path en buf (t_save io)) = None
          \<and> isl (snd (sendFileWithName cfg en wa buf (last_segment (blob_path en buf (t_save io)))
                        (Some (blob_path en buf (t_save io))) False (t_temp io)))"
  let ?p = "blob_path en buf (t_save io)"
  let ?c = "checkAndCleanAlbum cfg en w (channelId s)"
  let ?w2 = "?c\<lparr>files := (files ?c)(?p \<mapsto> buf)\<rparr>"
  have s2: "sent ?w2 = sent w"
    by (simp add: checkAndCleanAlbum_frame)
  from deliver_fallback [of "detectMime buf = ''image/gif''" cfg en wa buf "last_segment ?p"
      "Some ?p" False "t_temp io" "detectMime buf" ?w2] mode a
  obtain w1 where w1: "sent w1 = sent ?w2"
    and d: "deliver cfg en ?w2 buf (detectMime buf) (detectMime buf = ''image/gif'')
              (last_segment ?p) (Some ?p) False (t_temp io) =
       (case send_throws en (ImageMsg buf (detectMime buf)) of
          None \<Rightarrow> (w1\<lparr>sent := sent w1 @ [ImageMsg buf (detectMime buf)]\<rparr>,
                    Inr (if detectMime buf = ''image/gif'' then GifAsImageFallback else ImageConverted))
        | Some m \<Rightarrow> (w1, Inl (SendError m)))"
    by auto
  have item: "convertEmoji_item cfg en s q w img io =
     (case deliver cfg en ?w2 buf (detectMime buf) (detectMime buf = ''image/gif'')
             (last_segment ?p) (Some ?p) False (t_temp io) of
        (w3, Inl e) \<Rightarrow> (w3, [Failed e], False)
      | (w3, Inr ln) \<Rightarrow> (db_create w3 (stored_record en s q buf io 0), [ln], True))"
    using url resp a by (simp add: convertEmoji_item_after_save)
  show "case send_throws en (ImageMsg buf (detectMime buf)) of
               None \<Rightarrow>
                 (\<exists>w'. convertEmoji_item cfg en s q w img io =
                         (w', [if detectMime buf = ''image/gif'' then GifAsImageFallback else ImageConverted], True)
                      \<and> sent w' = sent w @ [ImageMsg buf (detectMime buf)])
             | Some m \<Rightarrow>
                 (\<exists>w'. convertEmoji_item cfg en s q w img io = (w', [Failed (SendError m)], False)
                      \<and> sent w' = sent w)"
    unfolding item d using w1 s2
    by (simp add: db_create_def split: option.splits)
next
  assume a: "isl (snd (sendFileWithName cfg en wa buf
                   (''temp-'' @ take 8 (md5_hex en buf) @ ''.'' @ getExtFromMime (detectMime buf))
                   None True (t_temp io)))"
  let ?f = "''temp-'' @ take 8 (md5_hex en buf) @ ''.'' @ getExtFromMime (detectMime buf)"
  from deliver_fallback [of "detectMime buf = ''image/gif''" cfg en wa buf ?f
      None True "t_temp io" "detectMime buf" w] mode a
  obtain w1 where w1: "sent w1 = sent w"
    and d: "deliver cfg en w buf (detectMime buf) (detectMime buf = ''image/gif'')
              ?f None True (t_temp io) =
       (case send_throws en (ImageMsg buf (detectMime buf)) of
          None \<Rightarrow> (w1\<lparr>sent := sent w1 @ [ImageMsg buf (detectMime buf)]\<rparr>,
                    Inr (if detectMime buf = ''image/gif'' then GifAsImageFallback else ImageConverted))
        | Some m \<Rightarrow> (w1, Inl (SendError m)))"
    by auto
  have item: "convertEmojiOnly_item cfg en w img io =
     (case deliver cfg en w buf (detectMime buf) (detectMime buf = ''image/gif'') ?f None True (t_temp io) of
        (w1, Inl e) \<Rightarrow> (w1, [Failed e], False)
      | (w1, Inr ln) \<Rightarrow> (w1, [ln], True))"
    using url resp by (simp add: convertEmojiOnly_item_def downloadImage_def Let_def)
  show "case send_throws en (ImageMsg buf (detectMime buf)) of
               None \<Rightarrow>
                 (\<exists>w'. convertEmojiOnly_item cfg en w img io =
                         (w', [if detectMime buf = ''image/gif'' then GifAsImageFallback else ImageConverted], True)
                      \<and> sent w' = sent w @ [ImageMsg buf (detectMime buf)])
             | Some m \<Rightarrow>
                 (\<exists>w'. convertEmojiOnly_item cfg en w img io = (w', [Failed (SendError m)], False)
                      \<and> sent w' = sent w)"
    unfolding item d using w1
    by (simp split: option.splits)
qed

theorem C5_delivery_fallback_witness:
  "(if detectMime (demo_gif @ [0]) = ''image/gif'' then gifMode demo_cfg else staticImageMode demo_cfg) = File
   \<and> truthy (url_of demo_img)
   \<and> response (demo_io 0) = Inr (demo_gif @ [0])
   \<and> db_get empty_world (channelId demo_admin) (md5_hex file_down_env (demo_gif @ [0])) = []
   \<and> write_throws file_down_env (blob_path file_down_env (demo_gif @ [0]) (t_save (demo_io 0))) = None
   \<and> isl (snd (sendFileWithName demo_cfg file_down_env empty_world (demo_gif @ [0])
                 (last_segment (blob_path file_down_env (demo_gif @ [0]) (t_save (demo_io 0))))
                 (Some (blob_path file_down_env (demo_gif @ [0]) (t_save (demo_io 0)))) False
                 (t_temp (demo_io 0))))
   \<and> isl (snd (sendFileWithName demo_cfg file_down_env empty_world (demo_gif @ [0])
                 (''temp-'' @ take 8 (md5_hex file_down_env (demo_gif @ [0])) @ ''.''
                    @ getExtFromMime (detectMime (demo_gif @ [0])))
                 None True (t_temp (demo_io 0))))
   \<and> send_throws file_down_env (ImageMsg (demo_gif @ [0]) (detectMime (demo_gif @ [0]))) = None
   \<and> snd (convertEmoji_item demo_cfg file_down_env demo_admin demo_quote empty_world demo_img (demo_io 0))
        = ([GifAsImageFallback], True)
   \<and> sent (fst (convertEmoji_item demo_cfg file_down_env demo_admin demo_quote empty_world demo_img (demo_io 0)))
        = [ImageMsg (demo_gif @ [0]) ''image/gif'']
   \<and> snd (convertEmojiOnly_item demo_cfg file_down_env empty_world demo_img (demo_io 0))
        = ([GifAsImageFallback], True)
   \<and> sent (fst (convertEmojiOnly_item demo_cfg file_down_env empty_world demo_img (demo_io 0)))
        = [ImageMsg (demo_gif @ [0]) ''image/gif'']"
proof -
  let ?c = "demo_gif @ [0]"
  have m: "detectMime ?c = ''image/gif''"
    by code_simp
  have mode: "(if detectMime ?c = ''image/gif'' then gifMode demo_cfg else staticImageMode demo_cfg) = File"
    by (simp add: m demo_cfg_def)
  have u: "truthy (url_of demo_img)"
    by (simp add: truthy_def url_of_def demo_img_def)
  have r: "response (demo_io 0) = Inr ?c"
    by (simp add: demo_io_def)
  have g: "db_get empty_world (channelId demo_admin) (md5_hex file_down_env ?c) = []"
    by (simp add: db_get_def empty_world_def)
  have wt: "write_throws file_down_env (blob_path file_down_env ?c (t_save (demo_io 0))) = None"
    by (simp add: file_down_env_def demo_env_def)
  have f1: "isl (snd (sendFileWithName demo_cfg file_down_env empty_world ?c
                 (last_segment (blob_path file_down_env ?c (t_save (demo_io 0))))
                 (Some (blob_path file_down_env ?c (t_save (demo_io 0)))) False
                 (t_temp (demo_io 0))))"
    by (simp add: sendFileWithName_def session_send_def file_down_env_def demo_env_def demo_cfg_def)
  have f2: "isl (snd (sendFileWithName demo_cfg file_down_env empty_world ?c
                 (''temp-'' @ take 8 (md5_hex file_down_env ?c) @ ''.''
                    @ getExtFromMime (detectMime ?c))
                 None True (t_temp (demo_io 0))))"
    by (simp add: sendFileWithName_def session_send_def file_down_env_def demo_env_def demo_cfg_def)
  have st: "send_throws file_down_env (ImageMsg ?c (detectMime ?c)) = None"
    by (simp add: file_down_env_def demo_env_def)
  have e: "sent empty_world = []"
    by (simp add: empty_world_def)
  from C5_delivery_fallback [OF mode u r, of empty_world demo_admin file_down_env empty_world demo_quote]
    g wt f1 f2 st m e
  have "(\<exists>w'. convertEmoji_item demo_cfg file_down_env demo_admin demo_quote empty_world demo_img (demo_io 0)
               = (w', [GifAsImageFallback], True) \<and> sent w' = [ImageMsg ?c ''image/gif''])
      \<and> (\<exists>w'. convertEmojiOnly_item demo_cfg file_down_env empty_world demo_img (demo_io 0)
               = (w', [GifAsImageFallback], True) \<and> sent w' = [ImageMsg ?c ''image/gif''])"
    by simp
  then have "snd (convertEmoji_item demo_cfg file_down_env demo_admin demo_quote empty_world demo_img (demo_io 0))
        = ([GifAsImageFallback], True)
   \<and> sent (fst (convertEmoji_item demo_cfg file_down_env demo_admin demo_quote empty_world demo_img (demo_io 0)))
        = [ImageMsg ?c ''image/gif'']
   \<and> snd (convertEmojiOnly_item demo_cfg file_down_env empty_world demo_img (demo_io 0))
        = ([GifAsImageFallback], True)
   \<and> sent (fst (convertEmojiOnly_item demo_cfg file_down_env empty_world demo_img (demo_io 0)))
        = [ImageMsg ?c ''image/gif'']"
    by auto
  with mode u r g wt f1 f2 st show ?thesis by simp
qed



text \<open>
  C7. The MIME detection compares the first four octets in hexadecimal with the PNG,
  JPEG and GIF signatures, but compares the RIFF marker after an \<open>'ascii'\<close> decoding,
  which clears the highest bit of every octet. The content D2 C9 C6 C6, whose prefix
  is not the RIFF marker 52 49 46 46, is therefore classified as \<open>image/webp\<close>.
\<close>

theorem C7_riff_high_bit:
  "downloadImage (Inr [0xD2, 0xC9, 0xC6, 0xC6]) = Inr ([0xD2, 0xC9, 0xC6, 0xC6], ''image/webp'', 4)
   \<and> toString_hex [0xD2, 0xC9, 0xC6, 0xC6] 0 4 = ''d2c9c6c6''
   \<and> toString_hex [0x52, 0x49, 0x46, 0x46] 0 4 = ''52494646''"
  by code_simp

text \<open>
  C8. Round trip. After an ingest that stored the content \<open>c\<close> at a time later than
  every row of the channel, the first index of the channel, newest first, is the row of
  that ingest: \<open>sendEmoji\<close> with index 1 reads from the stored path exactly the bytes
  \<open>c\<close>, so their digest is the digest recorded at the ingest; in image mode the payload
  it sends carries those bytes.
\<close>

theorem C8_round_trip:
  assumes stored: "convertEmoji_item cfg en s q w img io = (w', ls, True)"
    and content: "response io = Inr c"
    and newest: "\<forall>r\<in>set (select_channel (rows w) (channelId s)). createdAt r < t_create io"
    and enabled: "isAlbumEnabledForGroup cfg' (channelId s')"
    and channel: "channelId s' = channelId s"
    and readable: "read_throws en (blob_path en c (t_save io)) = None"
  shows "sendEmoji_read cfg' en w' s' 1 = Inr (stored_record en s q c io (nextId w), c)
    \<and> md5 (stored_record en s q c io (nextId w)) = md5_hex en c
    \<and> (gifMode cfg' = Buffer \<and> staticImageMode cfg' = Buffer
        \<and> send_throws en (ImageMsg c (detectMime c)) = None
       \<longrightarrow> sent (fst (sendEmoji cfg' en w' s' 1 now)) = sent w' @ [ImageMsg c (detectMime c)])"
proof -
  let ?r = "stored_record en s q c io (nextId w)"
  have nf: "channel_newest_first w' (channelId s)
              = ?r # channel_newest_first (checkAndCleanAlbum cfg en w (channelId s)) (channelId s)"
    by (rule convertEmoji_item_stored_newest_first [OF stored content newest])
  from convertEmoji_item_stored [OF stored] content
  have f: "files w' (blob_path en c (t_save io)) = Some c"
    by auto
  have rd: "sendEmoji_read cfg' en w' s' 1 = Inr (?r, c)"
    using enabled readable by (simp add: sendEmoji_read_def channel nf f Let_def)
  have "gifMode cfg' = Buffer \<and> staticImageMode cfg' = Buffer
        \<and> send_throws en (ImageMsg c (detectMime c)) = None
       \<longrightarrow> sent (fst (sendEmoji cfg' en w' s' 1 now)) = sent w' @ [ImageMsg c (detectMime c)]"
    by (auto simp: sendEmoji_def rd sendEmoji_dispatch_def session_send_def)
  with rd show ?thesis by simp
qed

theorem C8_round_trip_witness:
  "snd (snd (convertEmoji_item demo_cfg demo_env demo_admin demo_quote demo_world demo_img (demo_io 1)))
   \<and> response (demo_io 1) = Inr (demo_gif @ [1])
   \<and> map createdAt (select_channel (rows demo_world) (channelId demo_admin)) = [1002]
   \<and> t_create (demo_io 1) = 1012
   \<and> isAlbumEnabledForGroup demo_cfg (channelId demo_admin)
   \<and> read_throws demo_env (blob_path demo_env (demo_gif @ [1]) (t_save (demo_io 1))) = None
   \<and> sendEmoji_read demo_cfg demo_env
        (fst (convertEmoji_item demo_cfg demo_env demo_admin demo_quote demo_world demo_img (demo_io 1)))
        demo_admin 1
       = Inr (stored_record demo_env demo_admin demo_quote (demo_gif @ [1]) (demo_io 1) 2, demo_gif @ [1])"
proof -
  let ?x = "convertEmoji_item demo_cfg demo_env demo_admin demo_quote demo_world demo_img (demo_io 1)"
  have ok: "snd (snd ?x)" by code_simp
  then have run: "?x = (fst ?x, fst (snd ?x), True)"
    by (metis prod.collapse)
  have r: "response (demo_io 1) = Inr (demo_gif @ [1])"
    by (simp add: demo_io_def)
  have old: "map createdAt (select_channel (rows demo_world) (channelId demo_admin)) = [1002]"
    by code_simp
  have t: "t_create (demo_io 1) = 1012"
    by (simp add: demo_io_def)
  have newest: "\<forall>r\<in>set (select_channel (rows demo_world) (channelId demo_admin)).
                  createdAt r < t_create (demo_io 1)"
  proof
    fix r assume "r \<in> set (select_channel (rows demo_world) (channelId demo_admin))"
    then have "createdAt r \<in> set (map createdAt (select_channel (rows demo_world) (channelId demo_admin)))"
      by simp
    then show "createdAt r < t_create (demo_io 1)"
      unfolding old t by simp
  qed
  have en: "isAlbumEnabledForGroup demo_cfg (channelId demo_admin)"
    by (simp add: isAlbumEnabledForGroup_def demo_defs)
  have rd: "read_throws demo_env (blob_path demo_env (demo_gif @ [1]) (t_save (demo_io 1))) = None"
    by (simp add: demo_env_def)
  have n: "nextId demo_world = 2" by code_simp
  from C8_round_trip [OF run r newest en refl rd, of 0] n ok r old t en rd
  show ?thesis by simp
qed

text \<open>
  C9. Blob before row. A pass through the ingest loop that counts a success has appended
  one row, and the path of that row holds the content. A pass that does not count a
  success has created no row (the rows are those before the pass, or those left by the
  eviction) and has used no key. If such a pass had a new content and a blob write that
  went through, it failed in the delivery: the blob stays on disk, without a row.
\<close>

theorem C9_blob_before_row:
  assumes run: "convertEmoji_item cfg en s q w img io = (w', ls, ok)"
  shows "(ok \<longrightarrow> (\<exists>buf. response io = Inr buf
            \<and> rows w' = rows (checkAndCleanAlbum cfg en w (channelId s))
                          @ [stored_record en s q buf io (nextId w)]
            \<and> files w' (filePath (stored_record en s q buf io (nextId w))) = Some buf))
    \<and> (\<not> ok \<longrightarrow> (rows w' = rows w \<or> rows w' = rows (checkAndCleanAlbum cfg en w (channelId s)))
            \<and> nextId w' = nextId w)
    \<and> (\<not> ok \<and> truthy (url_of img) \<and> response io = Inr c
          \<and> db_get w (channelId s) (md5_hex en c) = []
          \<and> write_throws en (blob_path en c (t_save io)) = None
        \<longrightarrow> files w' (blob_path en c (t_save io)) = Some c
            \<and> (\<exists>m. ls = [Failed (SendError m)]))"
proof (intro conjI impI)
  assume ok
  with run have "convertEmoji_item cfg en s q w img io = (w', ls, True)" by simp
  from convertEmoji_item_stored [OF this]
  show "\<exists>buf. response io = Inr buf
            \<and> rows w' = rows (checkAndCleanAlbum cfg en w (channelId s))
                          @ [stored_record en s q buf io (nextId w)]
            \<and> files w' (filePath (stored_record en s q buf io (nextId w))) = Some buf"
    by (auto simp: stored_record_def)
next
  assume "\<not> ok"
  with run have f: "convertEmoji_item cfg en s q w img io = (w', ls, False)" by simp
  from convertEmoji_item_rows_cases [OF f]
  show "rows w' = rows w \<or> rows w' = rows (checkAndCleanAlbum cfg en w (channelId s))" .
  from convertEmoji_item_not_stored [OF f] show "nextId w' = nextId w" by simp
next
  assume a: "\<not> ok \<and> truthy (url_of img) \<and> response io = Inr c
          \<and> db_get w (channelId s) (md5_hex en c) = []
          \<and> write_throws en (blob_path en c (t_save io)) = None"
  let ?p = "blob_path en c (t_save io)"
  let ?c = "checkAndCleanAlbum cfg en w (channelId s)"
  let ?w2 = "?c\<lparr>files := (files ?c)(?p \<mapsto> c)\<rparr>"
  obtain w3 r where d: "deliver cfg en ?w2 c (detectMime c) (detectMime c = ''image/gif'')
             (last_segment ?p) (Some ?p) False (t_temp io) = (w3, r)"
    by (metis surj_pair)
  from a have eq: "convertEmoji_item cfg en s q w img io =
      (case (w3, r) of (w3, Inl e) \<Rightarrow> (w3, [Failed e], False)
        | (w3, Inr ln) \<Rightarrow> (db_create w3 (stored_record en s q c io 0), [ln], True))"
    by (simp add: convertEmoji_item_after_save d)
  with run a obtain e where r: "r = Inl e" and w': "w' = w3" and ls: "ls = [Failed e]"
    by (cases r) auto
  have "files w3 ?p = files ?w2 ?p"
    using deliver_frame [OF d] temp_path_differs [of "storageDir en" "show_nat (t_temp io)" ?p]
    by (metis (no_types, lifting))
  then show "files w' ?p = Some c" by (simp add: w')
  from deliver_error [OF d [unfolded r]] ls show "\<exists>m. ls = [Failed (SendError m)]" by auto
qed

theorem C9_blob_before_row_witness:
  "truthy (url_of demo_img)
   \<and> response (demo_io 0) = Inr (demo_gif @ [0])
   \<and> db_get empty_world (channelId demo_admin) (md5_hex offline_env (demo_gif @ [0])) = []
   \<and> write_throws offline_env (blob_path offline_env (demo_gif @ [0]) (t_save (demo_io 0))) = None
   \<and> \<not> snd (snd (convertEmoji_item demo_cfg offline_env demo_admin demo_quote empty_world demo_img (demo_io 0)))
   \<and> files (fst (convertEmoji_item demo_cfg offline_env demo_admin demo_quote empty_world demo_img (demo_io 0)))
        (blob_path offline_env (demo_gif @ [0]) (t_save (demo_io 0))) = Some (demo_gif @ [0])
   \<and> rows (fst (convertEmoji_item demo_cfg offline_env demo_admin demo_quote empty_world demo_img (demo_io 0))) = []
   \<and> fst (snd (convertEmoji_item demo_cfg offline_env demo_admin demo_quote empty_world demo_img (demo_io 0)))
        = [Failed (SendError ''offline'')]
   \<and> snd (snd (convertEmoji_item demo_cfg demo_env demo_admin demo_quote empty_world demo_img (demo_io 0)))
   \<and> files (fst (convertEmoji_item demo_cfg demo_env demo_admin demo_quote empty_world demo_img (demo_io 0)))
        (filePath (stored_record demo_env demo_admin demo_quote (demo_gif @ [0]) (demo_io 0) 1))
        = Some (demo_gif @ [0])"
proof -
  let ?c = "demo_gif @ [0]"
  let ?x = "convertEmoji_item demo_cfg offline_env demo_admin demo_quote empty_world demo_img (demo_io 0)"
  let ?y = "convertEmoji_item demo_cfg demo_env demo_admin demo_quote empty_world demo_img (demo_io 0)"
  have runx: "?x = (fst ?x, fst (snd ?x), snd (snd ?x))" by simp
  have runy: "?y = (fst ?y, fst (snd ?y), snd (snd ?y))" by simp
  have u: "truthy (url_of demo_img)"
    by (simp add: truthy_def url_of_def demo_img_def)
  have r: "response (demo_io 0) = Inr ?c"
    by (simp add: demo_io_def)
  have g: "db_get empty_world (channelId demo_admin) (md5_hex offline_env ?c) = []"
    by (simp add: db_get_def empty_world_def)
  have wt: "write_throws offline_env (blob_path offline_env ?c (t_save (demo_io 0))) = None"
    by (simp add: offline_env_def demo_env_def)
  have nok: "\<not> snd (snd ?x)" by code_simp
  have ok: "snd (snd ?y)" by code_simp
  have ln: "fst (snd ?x) = [Failed (SendError ''offline'')]" by code_simp
  have cl: "rows (checkAndCleanAlbum demo_cfg offline_env empty_world (channelId demo_admin)) = []"
    by (simp add: checkAndCleanAlbum_def channel_newest_first_def select_channel_def
          orderBy_createdAt_desc_def empty_world_def demo_cfg_def)
  have e: "rows empty_world = []" "nextId empty_world = 1"
    by (simp_all add: empty_world_def)
  from C9_blob_before_row [OF runx, of ?c] u r g wt nok cl e
  have a: "files (fst ?x) (blob_path offline_env ?c (t_save (demo_io 0))) = Some ?c \<and> rows (fst ?x) = []"
    by auto
  from C9_blob_before_row [OF runy, of ?c] ok r e
  have b: "files (fst ?y) (filePath (stored_record demo_env demo_admin demo_quote ?c (demo_io 0) 1)) = Some ?c"
    by auto
  from u r g wt nok ln ok a b show ?thesis by simp
qed

text \<open>
  C10. Shared blob. The path of a blob depends on the date, the digest and the
  extension, not on the channel. Two ingests of the same content on the same day into
  two channels store two rows with one path; deleting the row of the first channel by
  its index unlinks that path, while the row of the second channel remains in the table
  and now points to no file.
\<close>

theorem C10_shared_blob:
  assumes inA: "convertEmoji_item cfg en sA qA w imgA ioA = (w1, lsA, True)"
    and inB: "convertEmoji_item cfg en sB qB w1 imgB ioB = (w2, lsB, True)"
    and contentA: "response ioA = Inr c"
    and contentB: "response ioB = Inr c"
    and same_day: "iso_date en (t_save ioA) = iso_date en (t_save ioB)"
    and channels: "channelId sA \<noteq> channelId sB"
    and ids: "ids_fresh w"
    and newest: "\<forall>r\<in>set (select_channel (rows w) (channelId sA)). createdAt r < t_create ioA"
    and enabled: "isAlbumEnabledForGroup cfg (channelId sA)"
    and perm: "hasDeletePermission cfg sA"
    and nothrow: "unlink_throws en (blob_path en c (t_save ioA)) = None"
  shows "filePath (stored_record en sA qA c ioA (nextId w))
           = filePath (stored_record en sB qB c ioB (Suc (nextId w)))
    \<and> files w2 (filePath (stored_record en sB qB c ioB (Suc (nextId w)))) = Some c
    \<and> snd (deleteEmoji cfg en w2 sA 1) = Deleted (fileName (stored_record en sA qA c ioA (nextId w)))
    \<and> stored_record en sA qA c ioA (nextId w) \<notin> set (rows (fst (deleteEmoji cfg en w2 sA 1)))
    \<and> stored_record en sB qB c ioB (Suc (nextId w)) \<in> set (rows (fst (deleteEmoji cfg en w2 sA 1)))
    \<and> files (fst (deleteEmoji cfg en w2 sA 1))
         (filePath (stored_record en sB qB c ioB (Suc (nextId w)))) = None"
proof -
  let ?rA = "stored_record en sA qA c ioA (nextId w)"
  let ?rB = "stored_record en sB qB c ioB (Suc (nextId w))"
  have path: "blob_path en c (t_save ioA) = blob_path en c (t_save ioB)"
    by (simp add: blob_path_def same_day)
  from convertEmoji_item_stored [OF inA] contentA have n1: "nextId w1 = Suc (nextId w)"
    by auto
  have ids1: "ids_fresh w1"
    by (rule convertEmoji_item_stored_ids_fresh [OF inA ids])
  then have dist1: "distinct (map rec_id (rows w1))"
    by (simp add: ids_fresh_def)
  from convertEmoji_item_stored [OF inB] contentB n1
  have r2: "rows w2 = rows (checkAndCleanAlbum cfg en w1 (channelId sB)) @ [?rB]"
    and f2: "files w2 (blob_path en c (t_save ioB)) = Some c"
    by auto
  have chA1: "channel_newest_first w1 (channelId sA)
                = ?rA # channel_newest_first (checkAndCleanAlbum cfg en w (channelId sA)) (channelId sA)"
    by (rule convertEmoji_item_stored_newest_first [OF inA contentA newest])
  have "select_channel (rows w2) (channelId sA) = select_channel (rows w1) (channelId sA)"
    by (rule convertEmoji_item_stored_other_channel [OF inB dist1 channels])
  then have chA2: "channel_newest_first w2 (channelId sA) = channel_newest_first w1 (channelId sA)"
    by (simp add: channel_newest_first_def)
  have del: "deleteEmoji cfg en w2 sA 1 =
     (db_remove_id (w2\<lparr>files := (files w2)(filePath ?rA := None)\<rparr>) (rec_id ?rA),
      Deleted (fileName ?rA))"
    using deleteEmoji_in_range [OF enabled perm, of 1 w2 en] nothrow
    by (simp add: chA2 chA1)
  have g1: "filePath ?rA = filePath ?rB"
    by (simp add: path)
  have g2: "files w2 (filePath ?rB) = Some c"
    by (simp add: f2)
  have g3: "snd (deleteEmoji cfg en w2 sA 1) = Deleted (fileName ?rA)"
    by (simp add: del)
  have g4: "?rA \<notin> set (rows (fst (deleteEmoji cfg en w2 sA 1)))"
    by (simp add: del db_remove_id_def)
  have g5: "?rB \<in> set (rows (fst (deleteEmoji cfg en w2 sA 1)))"
    by (simp add: del db_remove_id_def r2)
  have g6: "files (fst (deleteEmoji cfg en w2 sA 1)) (filePath ?rB) = None"
    by (simp add: del db_remove_id_def path)
  from g1 g2 g3 g4 g5 g6 show ?thesis by blast
qed

theorem C10_shared_blob_witness:
  "snd (snd (convertEmoji_item demo_cfg demo_env demo_admin demo_quote empty_world demo_img (demo_io 0)))
   \<and> snd (snd (convertEmoji_item demo_cfg demo_env demo_other demo_quote demo_world demo_img (demo_io 0)))
   \<and> response (demo_io 0) = Inr (demo_gif @ [0])
   \<and> channelId demo_admin \<noteq> channelId demo_other
   \<and> ids_fresh empty_world
   \<and> select_channel (rows empty_world) (channelId demo_admin) = []
   \<and> isAlbumEnabledForGroup demo_cfg (channelId demo_admin)
   \<and> hasDeletePermission demo_cfg demo_admin
   \<and> unlink_throws demo_env (blob_path demo_env (demo_gif @ [0]) (t_save (demo_io 0))) = None
   \<and> blob_path demo_env (demo_gif @ [0]) (t_save (demo_io 0)) = ''/data/2024-01-01-47494638396100.gif''
   \<and> files (fst (convertEmoji_item demo_cfg demo_env demo_other demo_quote demo_world demo_img (demo_io 0)))
        ''/data/2024-01-01-47494638396100.gif'' = Some (demo_gif @ [0])
   \<and> stored_record demo_env demo_other demo_quote (demo_gif @ [0]) (demo_io 0) 2
        \<in> set (rows (fst (deleteEmoji demo_cfg demo_env
              (fst (convertEmoji_item demo_cfg demo_env demo_other demo_quote demo_world demo_img (demo_io 0)))
              demo_admin 1)))
   \<and> files (fst (deleteEmoji demo_cfg demo_env
              (fst (convertEmoji_item demo_cfg demo_env demo_other demo_quote demo_world demo_img (demo_io 0)))
              demo_admin 1))
        ''/data/2024-01-01-47494638396100.gif'' = None"
proof -
  let ?a = "convertEmoji_item demo_cfg demo_env demo_admin demo_quote empty_world demo_img (demo_io 0)"
  let ?b = "convertEmoji_item demo_cfg demo_env demo_other demo_quote demo_world demo_img (demo_io 0)"
  let ?c = "demo_gif @ [0]"
  have oka: "snd (snd ?a)" by code_simp
  have okb: "snd (snd ?b)" by code_simp
  from oka have runa: "?a = (demo_world, fst (snd ?a), True)"
    unfolding demo_world_def by (metis prod.collapse)
  from okb have runb: "?b = (fst ?b, fst (snd ?b), True)"
    by (metis prod.collapse)
  have r: "response (demo_io 0) = Inr ?c" by (simp add: demo_io_def)
  have ch: "channelId demo_admin \<noteq> channelId demo_other"
    by (simp add: demo_admin_def demo_other_def)
  have ids: "ids_fresh empty_world" by (simp add: ids_fresh_def empty_world_def)
  have emp: "select_channel (rows empty_world) (channelId demo_admin) = []"
    by (simp add: select_channel_def empty_world_def)
  have newest: "\<forall>r\<in>set (select_channel (rows empty_world) (channelId demo_admin)).
                  createdAt r < t_create (demo_io 0)"
    by (simp add: emp)
  have en: "isAlbumEnabledForGroup demo_cfg (channelId demo_admin)"
    by (simp add: isAlbumEnabledForGroup_def demo_defs)
  have pm: "hasDeletePermission demo_cfg demo_admin"
    by (simp add: hasDeletePermission_def checkUserPermission_def demo_defs)
  have ut: "unlink_throws demo_env (blob_path demo_env ?c (t_save (demo_io 0))) = None"
    by (simp add: demo_env_def)
  have bp: "blob_path demo_env ?c (t_save (demo_io 0)) = ''/data/2024-01-01-47494638396100.gif''"
    by code_simp
  have n: "nextId empty_world = 1" by (simp add: empty_world_def)
  from C10_shared_blob [OF runa runb r r refl ch ids newest en pm ut] bp n
  have "files (fst ?b) ''/data/2024-01-01-47494638396100.gif'' = Some ?c
    \<and> stored_record demo_env demo_other demo_quote ?c (demo_io 0) 2
        \<in> set (rows (fst (deleteEmoji demo_cfg demo_env (fst ?b) demo_admin 1)))
    \<and> files (fst (deleteEmoji demo_cfg demo_env (fst ?b) demo_admin 1))
        ''/data/2024-01-01-47494638396100.gif'' = None"
    by (simp add: numeral_2_eq_2)
  with oka okb r ch ids emp en pm ut bp show ?thesis by simp
qed

end
